theory Spec2Isabelle
  imports Main "HOL-Library.Word" "HOL-Library.DAList"
begin

section \<open>Multi-asset value algebra (ouroboros/chainsync/types.go)\<close>

subsection \<open>The numeric wrapper\<close>

text \<open>
  Modelled from the spec: package \<^verbatim>\<open>num\<close> (the type \<^verbatim>\<open>num.Int\<close> with its methods
  \<^verbatim>\<open>Add\<close>, \<^verbatim>\<open>Sub\<close> and \<^verbatim>\<open>Int64\<close>) is not among the sources. The spec describes it as a
  thin wrapper around arbitrary-precision integers, so \<^verbatim>\<open>num.Int\<close> is \<^typ>\<open>int\<close>, whose
  zero value is 0, and \<^verbatim>\<open>Add\<close>/\<^verbatim>\<open>Sub\<close> are exact. \<^verbatim>\<open>Int64\<close> yields Go's \<^verbatim>\<open>int64\<close>, a 64-bit
  two's-complement word; the conversion is the one of Go's \<^verbatim>\<open>math/big\<close>, which keeps the
  low 64 bits of the magnitude and then applies the sign.
\<close>

type_synonym num_Int = int
type_synonym int64 = "64 word"

definition Int_Add :: "num_Int \<Rightarrow> num_Int \<Rightarrow> num_Int" where
  "Int_Add x y = x + y"

definition Int_Sub :: "num_Int \<Rightarrow> num_Int \<Rightarrow> num_Int" where
  "Int_Sub x y = x - y"

definition Int_Int64 :: "num_Int \<Rightarrow> int64" where
  "Int_Int64 x = (if x < 0 then - (word_of_int \<bar>x\<bar>) else word_of_int \<bar>x\<bar>)"

text \<open>Go's \<^verbatim>\<open><\<close> on \<^verbatim>\<open>int64\<close> compares the signed readings.\<close>

definition int64_less :: "int64 \<Rightarrow> int64 \<Rightarrow> bool" where
  "int64_less x y = (sint x < sint y)"

text \<open>The integers that an \<^verbatim>\<open>int64\<close> represents.\<close>

definition fits_int64 :: "int \<Rightarrow> bool" where
  "fits_int64 x = (- (2 ^ 63) \<le> x \<and> x < 2 ^ 63)"

subsection \<open>Values\<close>

text \<open>
  A Go map has unique keys and is ranged over in an unspecified order. It is modelled as
  a list of entries with distinct keys: the list's order stands for the order in which one
  run of \<^verbatim>\<open>range\<close> visits the entries, and a statement about all such lists is a statement
  about every order. A \<^verbatim>\<open>nil\<close> map and an empty map are both the empty list.
\<close>

type_synonym AssetID = string

record Value =
  Coins :: num_Int
  Assets :: "(AssetID, num_Int) alist"

text \<open>\<^verbatim>\<open>m[k]\<close> on a Go map: the zero value when the key is absent.\<close>

definition map_index :: "(AssetID, num_Int) alist \<Rightarrow> AssetID \<Rightarrow> num_Int" where
  "map_index m k = (case DAList.lookup m k of None \<Rightarrow> 0 | Some v \<Rightarrow> v)"

definition keys :: "(AssetID, num_Int) alist \<Rightarrow> AssetID set" where
  "keys m = fst ` set (DAList.impl_of m)"

text \<open>The two \<^verbatim>\<open>range\<close> loops of \<^verbatim>\<open>Add\<close> and \<^verbatim>\<open>Subtract\<close>, one step per entry.\<close>

definition copy_step :: "AssetID \<times> num_Int \<Rightarrow> (AssetID, num_Int) alist \<Rightarrow> (AssetID, num_Int) alist" where
  "copy_step e r = (case e of (assetId, amt) \<Rightarrow> DAList.update assetId amt r)"

definition add_step :: "AssetID \<times> num_Int \<Rightarrow> (AssetID, num_Int) alist \<Rightarrow> (AssetID, num_Int) alist" where
  "add_step e r = (case e of (assetId, amt) \<Rightarrow> DAList.update assetId (Int_Add (map_index r assetId) amt) r)"

definition sub_step :: "AssetID \<times> num_Int \<Rightarrow> (AssetID, num_Int) alist \<Rightarrow> (AssetID, num_Int) alist" where
  "sub_step e r = (case e of (assetId, amt) \<Rightarrow> DAList.update assetId (Int_Sub (map_index r assetId) amt) r)"

definition Add :: "Value \<Rightarrow> Value \<Rightarrow> Value" where
  "Add a b =
     \<lparr>Coins = Int_Add (Coins a) (Coins b),
      Assets = fold add_step (DAList.impl_of (Assets b))
                 (fold copy_step (DAList.impl_of (Assets a)) DAList.empty)\<rparr>"

definition Subtract :: "Value \<Rightarrow> Value \<Rightarrow> Value" where
  "Subtract a b =
     \<lparr>Coins = Int_Sub (Coins a) (Coins b),
      Assets = fold sub_step (DAList.impl_of (Assets b))
                 (fold copy_step (DAList.impl_of (Assets a)) DAList.empty)\<rparr>"

text \<open>
  \<^verbatim>\<open>Enough\<close> returns a pair \<^verbatim>\<open>(bool, error)\<close>; the error is its message, \<open>None\<close> for \<^verbatim>\<open>nil\<close>.
  The loop over \<^verbatim>\<open>want.Assets\<close> returns at the first entry that is short.
\<close>

fun Enough_loop :: "(AssetID, num_Int) alist \<Rightarrow> (AssetID \<times> num_Int) list \<Rightarrow> bool \<times> string option" where
  "Enough_loop have_assets [] = (True, None)"
| "Enough_loop have_assets ((asset, amt) # rest) =
     (if int64_less (Int_Int64 (map_index have_assets asset)) (Int_Int64 amt)
      then (False, Some (''not enough '' @ asset @ '' to meet demand''))
      else Enough_loop have_assets rest)"

definition Enough :: "Value \<Rightarrow> Value \<Rightarrow> bool \<times> string option" where
  "Enough have want =
     (if int64_less (Int_Int64 (Coins have)) (Int_Int64 (Coins want))
      then (False, Some ''not enough ADA to meet demand'')
      else Enough_loop (Assets have) (DAList.impl_of (Assets want)))"

section \<open>Wire message model (ouroboros/chainsync/types.go)\<close>

subsection \<open>Go values, errors and panics\<close>

text \<open>
  A \<^verbatim>\<open>[]byte\<close> is a list of characters; a \<^verbatim>\<open>json.RawMessage\<close> and every pointer is an
  option, \<open>None\<close> for \<^verbatim>\<open>nil\<close>. A function that can panic returns an \<open>outcome\<close>; a method
  with a pointer receiver that returns an \<^verbatim>\<open>error\<close> returns the receiver as it leaves it
  together with the error, \<open>None\<close> for \<^verbatim>\<open>nil\<close>.
\<close>

type_synonym bytes = string
type_synonym RawMessage = "bytes option"
type_synonym uint64 = "64 word"
type_synonym uint32 = "32 word"

datatype error =
    LibraryError string
  | Errorf string
  | ErrorfWrap string error

datatype panic =
    NilPointerDereference
  | IndexOutOfRange
  | InterfaceConversion
  | PanicError error

datatype 'a outcome = Panics panic | Returns 'a

text \<open>Reading or writing a field through a pointer: a run-time panic when it is \<^verbatim>\<open>nil\<close>.\<close>

definition deref :: "'a option \<Rightarrow> ('a \<Rightarrow> 'b outcome) \<Rightarrow> 'b outcome" where
  "deref p k = (case p of None \<Rightarrow> Panics NilPointerDereference | Some x \<Rightarrow> k x)"

text \<open>The test \<^verbatim>\<open>err == nil && cond\<close> on what a library call returned.\<close>

definition no_error_and :: "error + 'a \<Rightarrow> ('a \<Rightarrow> bool) \<Rightarrow> 'a option" where
  "no_error_and res cond =
     (case res of Inl _ \<Rightarrow> None | Inr r \<Rightarrow> if cond r then Some r else None)"

subsection \<open>Points and tips\<close>

type_synonym PointType = int

definition PointTypeString :: PointType where
  "PointTypeString = 1"

definition PointTypeStruct :: PointType where
  "PointTypeStruct = 2"

record PointStruct =
  PointStruct_BlockNo :: uint64
  PointStruct_ID :: string
  PointStruct_Slot :: uint64

record PointStructV5 =
  PointStructV5_Hash :: string
  PointStructV5_Slot :: uint64

record Point =
  pointType :: PointType
  pointString :: string
  pointStruct :: "PointStruct option"

record PointV5 =
  PointV5_pointType :: PointType
  PointV5_pointString :: string
  PointV5_pointStruct :: "PointStructV5 option"

definition zero_Point :: Point where
  "zero_Point = \<lparr>pointType = 0, pointString = [], pointStruct = None\<rparr>"

record pointCBOR =
  pointCBOR_String :: string
  pointCBOR_Struct :: "PointStruct option"

record Tip =
  Tip_Slot :: uint64
  Tip_ID :: string
  Tip_Height :: uint64

record TipV5 =
  TipV5_Slot :: uint64
  TipV5_Hash :: string
  TipV5_BlockNo :: uint64

subsection \<open>Results and responses\<close>

record IntersectionFound =
  IntersectionFound_Point :: PointV5
  IntersectionFound_Tip :: TipV5

record IntersectionNotFound =
  IntersectionNotFound_Tip :: TipV5

record ResultV5 =
  ResultV5_IntersectionFound :: "IntersectionFound option"
  ResultV5_IntersectionNotFound :: "IntersectionNotFound option"

record ResultError =
  ResultError_Code :: uint32
  ResultError_Message :: string
  ResultError_Data :: "Tip option"
  ResultError_ID :: RawMessage

definition zero_ResultError :: ResultError where
  "zero_ResultError =
     \<lparr>ResultError_Code = 0, ResultError_Message = [], ResultError_Data = None,
      ResultError_ID = None\<rparr>"

record ResultFindIntersectionPraos =
  Praos_Intersection :: "Point option"
  Praos_Tip :: "Tip option"
  Praos_Error :: "ResultError option"
  Praos_ID :: RawMessage

definition zero_ResultFindIntersectionPraos :: ResultFindIntersectionPraos where
  "zero_ResultFindIntersectionPraos =
     \<lparr>Praos_Intersection = None, Praos_Tip = None, Praos_Error = None, Praos_ID = None\<rparr>"

record IntersectionFoundV5 =
  IntersectionFoundV5_Point :: "Point option"
  IntersectionFoundV5_Tip :: "TipV5 option"

record IntersectionNotFoundV5 =
  IntersectionNotFoundV5_Tip :: "TipV5 option"

record ResultFindIntersectionV5 =
  V5_IntersectionFound :: "IntersectionFoundV5 option"
  V5_IntersectionNotFound :: "IntersectionNotFoundV5 option"

text \<open>
  \<^verbatim>\<open>CompatibleResultFindIntersection\<close> is declared with \<^verbatim>\<open>ResultFindIntersectionPraos\<close> as
  its underlying type: the same fields, and a conversion between the two changes nothing.
  The two are different types all the same, which a type assertion on an interface value
  tells apart; see \<open>iface\<close> below.
\<close>

type_synonym CompatibleResultFindIntersection = ResultFindIntersectionPraos

text \<open>A \<^verbatim>\<open>Block\<close> is carried through undecoded by everything modelled here.\<close>

typedecl Block

record ResultNextBlockPraos =
  NextBlock_Direction :: string
  NextBlock_Tip :: "Tip option"
  NextBlock_Block :: "Block option"
  NextBlock_Point :: "Point option"

record ResponseV5 =
  ResponseV5_Type :: string
  ResponseV5_Version :: string
  ResponseV5_ServiceName :: string
  ResponseV5_MethodName :: string
  ResponseV5_Result :: "ResultV5 option"
  ResponseV5_Reflection :: RawMessage

text \<open>
  The field \<^verbatim>\<open>Result interface{}\<close> of a response: \<^verbatim>\<open>nil\<close>, or a value tagged with its dynamic
  type. These are the dynamic types the code stores there.
\<close>

datatype iface =
    Nil
  | Dyn_CompatibleResultFindIntersection CompatibleResultFindIntersection
  | Dyn_ResultFindIntersectionPraos ResultFindIntersectionPraos
  | Dyn_Ptr_ResultFindIntersectionPraos ResultFindIntersectionPraos
  | Dyn_ResultNextBlockPraos ResultNextBlockPraos

record ResponsePraos =
  Response_JsonRpc :: string
  Response_Method :: string
  Response_Result :: iface
  Response_Error :: "ResultError option"
  Response_ID :: RawMessage

definition zero_ResponsePraos :: ResponsePraos where
  "zero_ResponsePraos =
     \<lparr>Response_JsonRpc = [], Response_Method = [], Response_Result = Nil,
      Response_Error = None, Response_ID = None\<rparr>"

type_synonym CompatibleResponsePraos = ResponsePraos

text \<open>The anonymous struct \<^verbatim>\<open>m\<close> that \<^verbatim>\<open>ResponsePraos.UnmarshalJSON\<close> decodes first.\<close>

record envelope =
  envelope_JsonRpc :: string
  envelope_Method :: string
  envelope_ID :: RawMessage
  envelope_Result :: RawMessage
  envelope_Error :: RawMessage

definition FindIntersectionMethod :: string where
  "FindIntersectionMethod = ''findIntersection''"

definition NextBlockMethod :: string where
  "NextBlockMethod = ''nextBlock''"

subsection \<open>The codec libraries\<close>

text \<open>
  A DynamoDB \<^verbatim>\<open>AttributeValue\<close> with the kinds of attribute the Point codec reads or writes
  (string \<^verbatim>\<open>S\<close>, map \<^verbatim>\<open>M\<close>) and the number kind \<^verbatim>\<open>N\<close> that the entries of such a map use.
  The map is a list of entries; its length is what \<^verbatim>\<open>len(item.M)\<close> returns, 0 for \<^verbatim>\<open>nil\<close>.
\<close>

datatype AttributeValue =
  AttributeValue
    (AttributeValue_S: "string option")
    (AttributeValue_N: "string option")
    (AttributeValue_M: "(string \<times> AttributeValue) list")

type_synonym AttributeMap = "(string \<times> AttributeValue) list"

text \<open>
  \<^verbatim>\<open>encoding/json\<close>, \<^verbatim>\<open>fxamacker/cbor\<close> and the DynamoDB attribute package are not code of
  this repository. What they return for a given input and target type is a parameter of
  the model: a record with one function per call the code makes. A statement proved for
  every such record holds whatever the libraries do.

  \<open>json_unmarshaler_input\<close> is what \<^verbatim>\<open>json.Unmarshal\<close> does with a target that has an
  \<^verbatim>\<open>UnmarshalJSON\<close> method: a syntax error for invalid input, otherwise the bytes of the
  top-level value, which it hands to that method.
\<close>

record library =
  json_unmarshaler_input :: "bytes \<Rightarrow> error + bytes"
  json_Unmarshal_envelope :: "bytes \<Rightarrow> error + envelope"
  json_Unmarshal_ResultFindIntersectionPraos :: "bytes \<Rightarrow> error + ResultFindIntersectionPraos"
  json_Unmarshal_ResultFindIntersectionV5 :: "bytes \<Rightarrow> error + ResultFindIntersectionV5"
  json_Unmarshal_ResponseV5 :: "bytes \<Rightarrow> error + ResponseV5"
  json_Unmarshal_ResultNextBlockPraos :: "RawMessage \<Rightarrow> error + ResultNextBlockPraos"
  json_Unmarshal_string :: "bytes \<Rightarrow> error + string"
  json_Unmarshal_PointStruct :: "bytes \<Rightarrow> error + PointStruct"
  json_Marshal_string :: "string \<Rightarrow> error + bytes"
  json_Marshal_PointStruct :: "PointStruct option \<Rightarrow> error + bytes"
  cbor_Unmarshal_pointCBOR :: "bytes \<Rightarrow> error + pointCBOR"
  cbor_Marshal_pointCBOR :: "pointCBOR \<Rightarrow> error + bytes"
  dynamodbattribute_UnmarshalMap :: "AttributeMap \<Rightarrow> error + PointStruct"
  dynamodbattribute_MarshalMap :: "PointStruct option \<Rightarrow> error + AttributeMap"

subsection \<open>The Point codecs\<close>

definition unknown_type_error :: error where
  "unknown_type_error = Errorf ''unable to unmarshal Point: unknown type''"

text \<open>
  \<^verbatim>\<open>MarshalDynamoDBAttributeValue\<close> writes into the attribute the caller passes and returns
  an error; the model returns the attribute as the call leaves it.
\<close>

definition MarshalDynamoDBAttributeValue ::
  "library \<Rightarrow> Point \<Rightarrow> AttributeValue option \<Rightarrow> (AttributeValue option \<times> error option) outcome" where
  "MarshalDynamoDBAttributeValue L p item =
     (if pointType p = PointTypeString then
        deref item (\<lambda>av.
          Returns (Some (AttributeValue (Some (pointString p)) (AttributeValue_N av)
                           (AttributeValue_M av)), None))
      else if pointType p = PointTypeStruct then
        (case dynamodbattribute_MarshalMap L (pointStruct p) of
           Inl err \<Rightarrow> Returns (item, Some (ErrorfWrap ''failed to marshal point struct'' err))
         | Inr m \<Rightarrow>
             deref item (\<lambda>av.
               Returns (Some (AttributeValue (AttributeValue_S av) (AttributeValue_N av) m),
                        None)))
      else Returns (item, Some unknown_type_error))"

definition MarshalCBOR :: "library \<Rightarrow> Point \<Rightarrow> error + bytes" where
  "MarshalCBOR L p =
     (if pointType p = PointTypeString \<or> pointType p = PointTypeStruct then
        cbor_Marshal_pointCBOR L
          \<lparr>pointCBOR_String = pointString p, pointCBOR_Struct = pointStruct p\<rparr>
      else Inl unknown_type_error)"

definition MarshalJSON :: "library \<Rightarrow> Point \<Rightarrow> error + bytes" where
  "MarshalJSON L p =
     (if pointType p = PointTypeString then json_Marshal_string L (pointString p)
      else if pointType p = PointTypeStruct then json_Marshal_PointStruct L (pointStruct p)
      else Inl unknown_type_error)"

definition bNil :: bytes where
  "bNil = ''nil''"

definition UnmarshalCBOR :: "library \<Rightarrow> Point \<Rightarrow> bytes \<Rightarrow> Point \<times> error option" where
  "UnmarshalCBOR L p data =
     (if length data = 0 \<or> data = bNil then (p, None)
      else
        (case cbor_Unmarshal_pointCBOR L data of
           Inl err \<Rightarrow> (p, Some (ErrorfWrap ''failed to unmarshal Point'' err))
         | Inr v \<Rightarrow>
             (let point = \<lparr>pointType = PointTypeString, pointString = pointCBOR_String v,
                           pointStruct = pointCBOR_Struct v\<rparr>;
                  point = (if pointStruct point \<noteq> None
                           then point\<lparr>pointType := PointTypeStruct\<rparr> else point)
              in (point, None))))"

definition UnmarshalDynamoDBAttributeValue ::
  "library \<Rightarrow> Point \<Rightarrow> AttributeValue option \<Rightarrow> Point \<times> error option" where
  "UnmarshalDynamoDBAttributeValue L p item =
     (case item of
        None \<Rightarrow> (p, None)
      | Some av \<Rightarrow>
          (case AttributeValue_S av of
             Some s \<Rightarrow>
               (\<lparr>pointType = PointTypeString, pointString = s, pointStruct = None\<rparr>, None)
           | None \<Rightarrow>
               if length (AttributeValue_M av) > 0 then
                 (case dynamodbattribute_UnmarshalMap L (AttributeValue_M av) of
                    Inl err \<Rightarrow> (p, Some (ErrorfWrap ''failed to unmarshal point struct'' err))
                  | Inr point \<Rightarrow>
                      (\<lparr>pointType = PointTypeStruct, pointString = [],
                        pointStruct = Some point\<rparr>, None))
               else (p, None)))"

text \<open>\<^verbatim>\<open>data[0]\<close> is an index out of range, a panic, when \<open>data\<close> is empty.\<close>

definition UnmarshalJSON :: "library \<Rightarrow> Point \<Rightarrow> bytes \<Rightarrow> (Point \<times> error option) outcome" where
  "UnmarshalJSON L p data =
     (case data of
        [] \<Rightarrow> Panics IndexOutOfRange
      | c # _ \<Rightarrow>
          if c = CHR 0x22 then
            (case json_Unmarshal_string L data of
               Inl err \<Rightarrow>
                 Returns (p, Some (ErrorfWrap (''failed to unmarshal Point, '' @ data) err))
             | Inr s \<Rightarrow>
                 Returns (\<lparr>pointType = PointTypeString, pointString = s, pointStruct = None\<rparr>,
                          None))
          else
            (case json_Unmarshal_PointStruct L data of
               Inl err \<Rightarrow>
                 Returns (p, Some (ErrorfWrap (''failed to unmarshal Point, '' @ data) err))
             | Inr ps \<Rightarrow>
                 Returns (\<lparr>pointType = PointTypeStruct, pointString = [], pointStruct = Some ps\<rparr>,
                          None)))"

subsection \<open>The compatibility decoders\<close>

text \<open>
  \<^verbatim>\<open>json.Unmarshal(data, &v)\<close> for a \<open>v\<close> whose type has an \<^verbatim>\<open>UnmarshalJSON\<close> method of this
  repository: the library checks the input and calls the method on \<open>v\<close>.
\<close>

definition json_Unmarshal_via ::
  "library \<Rightarrow> ('a \<Rightarrow> bytes \<Rightarrow> ('a \<times> error option) outcome) \<Rightarrow> 'a \<Rightarrow> bytes \<Rightarrow>
   ('a \<times> error option) outcome" where
  "json_Unmarshal_via L method v data =
     (case json_unmarshaler_input L data of
        Inl err \<Rightarrow> Returns (v, Some err)
      | Inr raw \<Rightarrow> method v raw)"

text \<open>
  \<^verbatim>\<open>CompatibleResultFindIntersection.UnmarshalJSON\<close>. Both legacy branches build the tip from
  \<^verbatim>\<open>r5.IntersectionFound.Tip\<close>, with \<^verbatim>\<open>Slot: 0\<close>; each pointer on that path is dereferenced,
  also in the branch taken when \<^verbatim>\<open>r5.IntersectionFound\<close> is \<^verbatim>\<open>nil\<close>.
\<close>

definition CompatibleResultFindIntersection_UnmarshalJSON ::
  "library \<Rightarrow> CompatibleResultFindIntersection \<Rightarrow> bytes \<Rightarrow>
   (CompatibleResultFindIntersection \<times> error option) outcome" where
  "CompatibleResultFindIntersection_UnmarshalJSON L c data =
     (case no_error_and (json_Unmarshal_ResultFindIntersectionPraos L data)
             (\<lambda>r. Praos_Tip r \<noteq> None) of
        Some r \<Rightarrow> Returns (r, None)
      | None \<Rightarrow>
          (case json_Unmarshal_ResultFindIntersectionV5 L data of
             Inl err \<Rightarrow> Returns (c, Some err)
           | Inr r5 \<Rightarrow>
               if V5_IntersectionFound r5 \<noteq> None then
                 deref (V5_IntersectionFound r5) (\<lambda>found.
                 deref (IntersectionFoundV5_Tip found) (\<lambda>t5.
                   let tip = \<lparr>Tip_Slot = 0, Tip_ID = TipV5_Hash t5,
                              Tip_Height = TipV5_BlockNo t5\<rparr>
                   in Returns
                        (c\<lparr>Praos_Intersection := IntersectionFoundV5_Point found,
                           Praos_Tip := Some tip, Praos_Error := None, Praos_ID := None\<rparr>,
                         None)))
               else if V5_IntersectionNotFound r5 \<noteq> None then
                 deref (V5_IntersectionFound r5) (\<lambda>found.
                 deref (IntersectionFoundV5_Tip found) (\<lambda>t5.
                   let tip = \<lparr>Tip_Slot = 0, Tip_ID = TipV5_Hash t5,
                              Tip_Height = TipV5_BlockNo t5\<rparr>;
                       err = \<lparr>ResultError_Code = 1000,
                              ResultError_Message = ''Intersection not found'',
                              ResultError_Data = Some tip, ResultError_ID = None\<rparr>
                   in Returns (c\<lparr>Praos_Error := Some err\<rparr>, None)))
               else Returns (c, None)))"

text \<open>
  \<^verbatim>\<open>ResponsePraos.UnmarshalJSON\<close>. For the find-intersection method the whole payload \<open>b\<close>,
  not \<^verbatim>\<open>m.Result\<close>, goes to the compatibility decoder, and the value stored in \<^verbatim>\<open>r.Result\<close>
  has the dynamic type \<^verbatim>\<open>CompatibleResultFindIntersection\<close>. The \<^verbatim>\<open>fmt.Println\<close> of the decoded
  value writes to standard output only and is left out.
\<close>

definition unknown_method_error :: "string \<Rightarrow> error" where
  "unknown_method_error method = Errorf (''unknown method: '' @ [CHR 0x27] @ method @ [CHR 0x27])"

definition ResponsePraos_UnmarshalJSON ::
  "library \<Rightarrow> ResponsePraos \<Rightarrow> bytes \<Rightarrow> (ResponsePraos \<times> error option) outcome" where
  "ResponsePraos_UnmarshalJSON L r b =
     (case json_Unmarshal_envelope L b of
        Inl err \<Rightarrow> Returns (r, Some err)
      | Inr m \<Rightarrow>
          (let r = r\<lparr>Response_JsonRpc := envelope_JsonRpc m,
                     Response_Method := envelope_Method m,
                     Response_ID := envelope_ID m\<rparr>
           in
             if envelope_Method m = FindIntersectionMethod then
               (case json_Unmarshal_via L (CompatibleResultFindIntersection_UnmarshalJSON L)
                       zero_ResultFindIntersectionPraos b of
                  Panics p \<Rightarrow> Panics p
                | Returns (findIntersection, Some err) \<Rightarrow> Returns (r, Some err)
                | Returns (findIntersection, None) \<Rightarrow>
                    Returns
                      (r\<lparr>Response_Result :=
                            Dyn_CompatibleResultFindIntersection findIntersection\<rparr>,
                       None))
             else if envelope_Method m = NextBlockMethod then
               (case json_Unmarshal_ResultNextBlockPraos L (envelope_Result m) of
                  Inl err \<Rightarrow> Returns (r, Some err)
                | Inr nextBlock \<Rightarrow>
                    Returns (r\<lparr>Response_Result := Dyn_ResultNextBlockPraos nextBlock\<rparr>, None))
             else Returns (r, Some (unknown_method_error (Response_Method r)))))"

text \<open>
  \<^verbatim>\<open>CompatibleResponsePraos.UnmarshalJSON\<close>. In the legacy found branch the local \<^verbatim>\<open>var p Point\<close>
  has a \<^verbatim>\<open>nil\<close> \<^verbatim>\<open>pointStruct\<close>, through which the code assigns; in the not-found branch the
  height is read through \<^verbatim>\<open>r5.Result.IntersectionFound\<close>.
\<close>

definition CompatibleResponsePraos_UnmarshalJSON ::
  "library \<Rightarrow> CompatibleResponsePraos \<Rightarrow> bytes \<Rightarrow>
   (CompatibleResponsePraos \<times> error option) outcome" where
  "CompatibleResponsePraos_UnmarshalJSON L c data =
     (case json_Unmarshal_via L (ResponsePraos_UnmarshalJSON L) zero_ResponsePraos data of
        Panics p \<Rightarrow> Panics p
      | Returns (r, err) \<Rightarrow>
          if err = None \<and> Response_Result r \<noteq> Nil then Returns (r, None)
          else
            (let res5 = json_Unmarshal_ResponseV5 L data;
                 c = c\<lparr>Response_JsonRpc := ''2.0'', Response_Method := ''findIntersection''\<rparr>
             in
               case res5 of
                 Inl _ \<Rightarrow> Returns (c, None)
               | Inr r5 \<Rightarrow>
                   deref (ResponseV5_Result r5) (\<lambda>result.
                     if ResultV5_IntersectionFound result \<noteq> None then
                       deref (ResultV5_IntersectionFound result) (\<lambda>found.
                         let p = zero_Point\<lparr>pointType := PointTypeStruct\<rparr> in
                         deref (PointV5_pointStruct (IntersectionFound_Point found)) (\<lambda>ps5.
                         deref (pointStruct p) (\<lambda>ps.
                           let ps = ps\<lparr>PointStruct_Slot := PointStructV5_Slot ps5,
                                       PointStruct_ID := PointStructV5_Hash ps5\<rparr>;
                               p = p\<lparr>pointStruct := Some ps\<rparr>;
                               t = \<lparr>Tip_Slot = TipV5_Slot (IntersectionFound_Tip found),
                                    Tip_ID = TipV5_Hash (IntersectionFound_Tip found),
                                    Tip_Height = TipV5_BlockNo (IntersectionFound_Tip found)\<rparr>;
                               findIntersection =
                                 zero_ResultFindIntersectionPraos
                                   \<lparr>Praos_Intersection := Some p, Praos_Tip := Some t\<rparr>
                           in Returns
                                (c\<lparr>Response_Result :=
                                      Dyn_Ptr_ResultFindIntersectionPraos findIntersection,
                                   Response_ID := ResponseV5_Reflection r5\<rparr>,
                                 None))))
                     else if ResultV5_IntersectionNotFound result \<noteq> None then
                       deref (ResultV5_IntersectionNotFound result) (\<lambda>notFound.
                       deref (ResultV5_IntersectionFound result) (\<lambda>found.
                         let t = \<lparr>Tip_Slot = TipV5_Slot (IntersectionNotFound_Tip notFound),
                                  Tip_ID = TipV5_Hash (IntersectionNotFound_Tip notFound),
                                  Tip_Height = TipV5_BlockNo (IntersectionFound_Tip found)\<rparr>;
                             e = zero_ResultError
                                   \<lparr>ResultError_Data := Some t, ResultError_Code := 1000,
                                    ResultError_Message :=
                                      ''Intersection not found - Conversion from a v5 Ogmigo call''\<rparr>
                         in Returns
                              (c\<lparr>Response_Error := Some e,
                                 Response_ID := ResponseV5_Reflection r5\<rparr>,
                               None)))
                     else Returns (c\<lparr>Response_ID := ResponseV5_Reflection r5\<rparr>, None))))"

subsection \<open>The method-guarded accessors\<close>

definition must_error :: "string \<Rightarrow> string \<Rightarrow> error" where
  "must_error method called_on =
     Errorf (''must only use *Must* methods after switching on the '' @ method
             @ '' method; called on '' @ called_on)"

definition MustFindIntersectResult :: "ResponsePraos \<Rightarrow> ResultFindIntersectionPraos outcome" where
  "MustFindIntersectResult r =
     (if Response_Method r \<noteq> FindIntersectionMethod
      then Panics (PanicError (must_error ''findIntersection'' (Response_Method r)))
      else
        (case Response_Result r of
           Dyn_ResultFindIntersectionPraos v \<Rightarrow> Returns v
         | _ \<Rightarrow> Panics InterfaceConversion))"

definition MustNextBlockResult :: "ResponsePraos \<Rightarrow> ResultNextBlockPraos outcome" where
  "MustNextBlockResult r =
     (if Response_Method r \<noteq> NextBlockMethod
      then Panics (PanicError (must_error ''nextBlock'' (Response_Method r)))
      else
        (case Response_Result r of
           Dyn_ResultNextBlockPraos v \<Rightarrow> Returns v
         | _ \<Rightarrow> Panics InterfaceConversion))"

subsection \<open>Sample payloads\<close>

text \<open>
  Concrete payloads of both wire shapes, and what the libraries return for them, worked
  out from the field tags of the target types (keys match field names without regard to
  case, unknown keys are skipped, absent keys leave the zero value). \<open>sample_library\<close> is
  defined on these payloads only and reports an error elsewhere; it serves to evaluate the
  decoders on real inputs.
\<close>

definition legacy_not_found_response :: bytes where
  \<open>legacy_not_found_response =
     ''{"type":"jsonwsp/response","version":"1.0","servicename":"ogmios","methodname":"FindIntersect","result":{"IntersectionNotFound":{"tip":{"slot":7,"hash":"ab","blockNo":3}}},"reflection":{"step":"INIT"}}''\<close>

definition legacy_found_response :: bytes where
  \<open>legacy_found_response =
     ''{"type":"jsonwsp/response","version":"1.0","servicename":"ogmios","methodname":"FindIntersect","result":{"IntersectionFound":{"point":{"slot":5,"hash":"cd"},"tip":{"slot":7,"hash":"ab","blockNo":3}}},"reflection":{"step":"INIT"}}''\<close>

definition legacy_not_found_result :: bytes where
  \<open>legacy_not_found_result =
     ''{"IntersectionNotFound":{"tip":{"slot":7,"hash":"ab","blockNo":3}}}''\<close>

definition legacy_found_result :: bytes where
  \<open>legacy_found_result =
     ''{"IntersectionFound":{"point":{"slot":5,"hash":"cd"},"tip":{"slot":7,"hash":"ab","blockNo":3}}}''\<close>

definition current_find_response :: bytes where
  \<open>current_find_response =
     ''{"jsonrpc":"2.0","method":"findIntersection","result":{"intersection":"origin","tip":{"slot":7,"id":"ab","height":3}}}''\<close>

definition current_find_result :: bytes where
  \<open>current_find_result = ''{"intersection":"origin","tip":{"slot":7,"id":"ab","height":3}}''\<close>

definition current_next_response :: bytes where
  \<open>current_next_response =
     ''{"jsonrpc":"2.0","method":"nextBlock","result":{"direction":"backward","tip":{"slot":7,"id":"ab","height":3},"point":"origin"}}''\<close>

definition current_next_result :: bytes where
  \<open>current_next_result =
     ''{"direction":"backward","tip":{"slot":7,"id":"ab","height":3},"point":"origin"}''\<close>

definition not_an_object :: bytes where
  \<open>not_an_object = ''[1]''\<close>

definition empty_object :: bytes where
  \<open>empty_object = ''{}''\<close>

definition result_without_intersection :: bytes where
  \<open>result_without_intersection = ''{"result":{}}''\<close>

definition json_origin :: bytes where
  \<open>json_origin = ''"origin"''\<close>

definition json_point_struct :: bytes where
  \<open>json_point_struct = ''{"id":"ab","slot":5}''\<close>

text \<open>The CBOR map \<open>{1: "origin"}\<close>: a one-entry map, the key 1, a six-byte text.\<close>

definition cbor_origin :: bytes where
  "cbor_origin = [CHR 0xA1, CHR 0x01, CHR 0x66] @ ''origin''"

definition sample_tip :: Tip where
  "sample_tip = \<lparr>Tip_Slot = 7, Tip_ID = ''ab'', Tip_Height = 3\<rparr>"

definition sample_tip_v5 :: TipV5 where
  "sample_tip_v5 = \<lparr>TipV5_Slot = 7, TipV5_Hash = ''ab'', TipV5_BlockNo = 3\<rparr>"

definition sample_point_struct :: PointStruct where
  "sample_point_struct =
     \<lparr>PointStruct_BlockNo = 0, PointStruct_ID = ''ab'', PointStruct_Slot = 5\<rparr>"

definition sample_attribute_map :: AttributeMap where
  "sample_attribute_map =
     [(''id'', AttributeValue (Some ''ab'') None []),
      (''slot'', AttributeValue None (Some ''5'') [])]"

definition Origin :: Point where
  "Origin = \<lparr>pointType = PointTypeString, pointString = ''origin'', pointStruct = None\<rparr>"

definition not_sample :: error where
  "not_sample = LibraryError ''not a sample payload''"

definition mismatch :: error where
  "mismatch = LibraryError ''json: cannot unmarshal array into Go value''"

definition sample_json_objects :: "bytes list" where
  "sample_json_objects =
     [legacy_not_found_response, legacy_found_response, legacy_not_found_result,
      legacy_found_result, current_find_response, current_find_result,
      current_next_response, current_next_result, empty_object,
      result_without_intersection]"

definition sample_envelope :: "bytes \<Rightarrow> error + envelope" where
  "sample_envelope d =
     (if d = current_find_response then
        Inr \<lparr>envelope_JsonRpc = ''2.0'', envelope_Method = ''findIntersection'',
             envelope_ID = None, envelope_Result = Some current_find_result,
             envelope_Error = None\<rparr>
      else if d = current_next_response then
        Inr \<lparr>envelope_JsonRpc = ''2.0'', envelope_Method = ''nextBlock'',
             envelope_ID = None, envelope_Result = Some current_next_result,
             envelope_Error = None\<rparr>
      else if d = legacy_not_found_response then
        Inr \<lparr>envelope_JsonRpc = [], envelope_Method = [], envelope_ID = None,
             envelope_Result = Some legacy_not_found_result, envelope_Error = None\<rparr>
      else if d = legacy_found_response then
        Inr \<lparr>envelope_JsonRpc = [], envelope_Method = [], envelope_ID = None,
             envelope_Result = Some legacy_found_result, envelope_Error = None\<rparr>
      else if d = result_without_intersection then
        Inr \<lparr>envelope_JsonRpc = [], envelope_Method = [], envelope_ID = None,
             envelope_Result = Some empty_object, envelope_Error = None\<rparr>
      else if d \<in> set sample_json_objects then
        Inr \<lparr>envelope_JsonRpc = [], envelope_Method = [], envelope_ID = None,
             envelope_Result = None, envelope_Error = None\<rparr>
      else if d = not_an_object then Inl mismatch
      else Inl not_sample)"

definition sample_ResultFindIntersectionPraos :: "bytes \<Rightarrow> error + ResultFindIntersectionPraos" where
  "sample_ResultFindIntersectionPraos d =
     (if d = current_find_result then
        Inr \<lparr>Praos_Intersection = Some Origin, Praos_Tip = Some sample_tip,
             Praos_Error = None, Praos_ID = None\<rparr>
      else if d = current_next_result then
        Inr \<lparr>Praos_Intersection = None, Praos_Tip = Some sample_tip,
             Praos_Error = None, Praos_ID = None\<rparr>
      else if d \<in> set sample_json_objects then Inr zero_ResultFindIntersectionPraos
      else if d = not_an_object then Inl mismatch
      else Inl not_sample)"

definition decoded_legacy_found_point :: Point where
  "decoded_legacy_found_point =
     \<lparr>pointType = PointTypeStruct, pointString = [],
      pointStruct =
        Some \<lparr>PointStruct_BlockNo = 0, PointStruct_ID = [], PointStruct_Slot = 5\<rparr>\<rparr>"

definition decoded_legacy_not_found_result :: ResultFindIntersectionV5 where
  "decoded_legacy_not_found_result =
     \<lparr>V5_IntersectionFound = None,
      V5_IntersectionNotFound = Some \<lparr>IntersectionNotFoundV5_Tip = Some sample_tip_v5\<rparr>\<rparr>"

definition decoded_legacy_found_result :: ResultFindIntersectionV5 where
  "decoded_legacy_found_result =
     \<lparr>V5_IntersectionFound =
        Some \<lparr>IntersectionFoundV5_Point = Some decoded_legacy_found_point,
              IntersectionFoundV5_Tip = Some sample_tip_v5\<rparr>,
      V5_IntersectionNotFound = None\<rparr>"

definition sample_ResultFindIntersectionV5 :: "bytes \<Rightarrow> error + ResultFindIntersectionV5" where
  "sample_ResultFindIntersectionV5 d =
     (if d = legacy_not_found_result then Inr decoded_legacy_not_found_result
      else if d = legacy_found_result then Inr decoded_legacy_found_result
      else if d \<in> set sample_json_objects then
        Inr \<lparr>V5_IntersectionFound = None, V5_IntersectionNotFound = None\<rparr>
      else if d = not_an_object then Inl mismatch
      else Inl not_sample)"

text \<open>
  \<^verbatim>\<open>PointV5\<close> has no exported field and no decoder of its own in this file, so the library
  leaves the point of a legacy "intersection found" at its zero value.
\<close>

definition decoded_legacy_not_found_response :: ResponseV5 where
  \<open>decoded_legacy_not_found_response =
     \<lparr>ResponseV5_Type = ''jsonwsp/response'', ResponseV5_Version = ''1.0'',
      ResponseV5_ServiceName = ''ogmios'', ResponseV5_MethodName = ''FindIntersect'',
      ResponseV5_Result =
        Some \<lparr>ResultV5_IntersectionFound = None,
              ResultV5_IntersectionNotFound =
                Some \<lparr>IntersectionNotFound_Tip = sample_tip_v5\<rparr>\<rparr>,
      ResponseV5_Reflection = Some ''{"step":"INIT"}''\<rparr>\<close>

definition decoded_legacy_found_response :: ResponseV5 where
  \<open>decoded_legacy_found_response =
     \<lparr>ResponseV5_Type = ''jsonwsp/response'', ResponseV5_Version = ''1.0'',
      ResponseV5_ServiceName = ''ogmios'', ResponseV5_MethodName = ''FindIntersect'',
      ResponseV5_Result =
        Some \<lparr>ResultV5_IntersectionFound =
                Some \<lparr>IntersectionFound_Point =
                        \<lparr>PointV5_pointType = 0, PointV5_pointString = [],
                         PointV5_pointStruct = None\<rparr>,
                      IntersectionFound_Tip = sample_tip_v5\<rparr>,
              ResultV5_IntersectionNotFound = None\<rparr>,
      ResponseV5_Reflection = Some ''{"step":"INIT"}''\<rparr>\<close>

definition sample_ResponseV5 :: "bytes \<Rightarrow> error + ResponseV5" where
  "sample_ResponseV5 d =
     (if d = legacy_not_found_response then Inr decoded_legacy_not_found_response
      else if d = legacy_found_response then Inr decoded_legacy_found_response
      else if d = current_find_response \<or> d = current_next_response
              \<or> d = result_without_intersection then
        Inr \<lparr>ResponseV5_Type = [], ResponseV5_Version = [], ResponseV5_ServiceName = [],
             ResponseV5_MethodName = [],
             ResponseV5_Result =
               Some \<lparr>ResultV5_IntersectionFound = None, ResultV5_IntersectionNotFound = None\<rparr>,
             ResponseV5_Reflection = None\<rparr>
      else if d \<in> set sample_json_objects then
        Inr \<lparr>ResponseV5_Type = [], ResponseV5_Version = [], ResponseV5_ServiceName = [],
             ResponseV5_MethodName = [], ResponseV5_Result = None,
             ResponseV5_Reflection = None\<rparr>
      else if d = not_an_object then Inl mismatch
      else Inl not_sample)"

text \<open>
  The \<^verbatim>\<open>Direction\<close> field of \<^verbatim>\<open>ResultNextBlockPraos\<close> carries the tag \<^verbatim>\<open>intersection\<close>, so the
  key \<^verbatim>\<open>direction\<close> of the payload is skipped.
\<close>

definition sample_ResultNextBlockPraos :: "RawMessage \<Rightarrow> error + ResultNextBlockPraos" where
  "sample_ResultNextBlockPraos d =
     (if d = Some current_next_result then
        Inr \<lparr>NextBlock_Direction = [], NextBlock_Tip = Some sample_tip,
             NextBlock_Block = None, NextBlock_Point = Some Origin\<rparr>
      else Inl not_sample)"

definition sample_library :: library where
  "sample_library =
     \<lparr>json_unmarshaler_input =
        (\<lambda>d. if d \<in> set sample_json_objects \<or> d = not_an_object then Inr d
             else Inl not_sample),
      json_Unmarshal_envelope = sample_envelope,
      json_Unmarshal_ResultFindIntersectionPraos = sample_ResultFindIntersectionPraos,
      json_Unmarshal_ResultFindIntersectionV5 = sample_ResultFindIntersectionV5,
      json_Unmarshal_ResponseV5 = sample_ResponseV5,
      json_Unmarshal_ResultNextBlockPraos = sample_ResultNextBlockPraos,
      json_Unmarshal_string = (\<lambda>d. if d = json_origin then Inr ''origin'' else Inl not_sample),
      json_Unmarshal_PointStruct =
        (\<lambda>d. if d = json_point_struct then Inr sample_point_struct else Inl not_sample),
      json_Marshal_string = (\<lambda>s. if s = ''origin'' then Inr json_origin else Inl not_sample),
      json_Marshal_PointStruct =
        (\<lambda>p. if p = Some sample_point_struct then Inr json_point_struct else Inl not_sample),
      cbor_Unmarshal_pointCBOR =
        (\<lambda>d. if d = cbor_origin
             then Inr \<lparr>pointCBOR_String = ''origin'', pointCBOR_Struct = None\<rparr>
             else Inl not_sample),
      cbor_Marshal_pointCBOR =
        (\<lambda>v. if v = \<lparr>pointCBOR_String = ''origin'', pointCBOR_Struct = None\<rparr>
             then Inr cbor_origin else Inl not_sample),
      dynamodbattribute_UnmarshalMap =
        (\<lambda>m. if m = sample_attribute_map then Inr sample_point_struct else Inl not_sample),
      dynamodbattribute_MarshalMap =
        (\<lambda>p. if p = Some sample_point_struct then Inr sample_attribute_map
             else Inl not_sample)\<rparr>"

section \<open>Pipelined streaming transport (client.go)\<close>

text \<open>
  \<^verbatim>\<open>New\<close> dials, starts the writer and the reader goroutine on an error group, runs the credit
  pre-load loop and returns the client. The model is the session after the dial: a state
  with the three channels, the control points of the two goroutines and of the pre-load
  loop, and the connection. Each statement that touches a channel or the connection is one
  atomic step; \<open>step\<close> says when a step is enabled and what it does, and an interleaving is a
  list of steps. What the scheduler, the network and the server decide (which goroutine
  runs, which \<^verbatim>\<open>select\<close> case is taken when several are ready, whether a write or a read
  fails, what the server sends) is the label of the step.

  The server answers each request with one message, in the order of the requests: the
  writer sends \<^verbatim>\<open>FindIntersect\<close> first, so the first message is its answer and every later
  message answers a \<^verbatim>\<open>RequestNext\<close>.
\<close>

text \<open>A message as \<^verbatim>\<open>conn.ReadMessage\<close> returns it: the message type and the payload.\<close>

type_synonym frame = "int \<times> string"

definition TextMessage :: int where
  "TextMessage = 1"

definition PingMessage :: int where
  "PingMessage = 9"

datatype writer_pc =
    WriterInit
  | WriterSelect
  | WriterWrite
  | WriterReturned

datatype reader_pc =
    ReaderRead
  | ReaderRefill frame
  | ReaderPong frame
  | ReaderPush frame
  | ReaderReturned

record session =
  ch :: nat
  blocks :: "string list"
  tip :: nat
  cancelled :: bool
  writer :: writer_pc
  reader :: reader_pc
  preload :: nat
  find_sent :: bool
  next_sent :: nat
  pongs_sent :: nat
  inbound :: "frame list"
  answered :: nat
  received :: nat

text \<open>
  \<open>ch\<close>, \<open>blocks\<close> and \<open>tip\<close> are the buffers of \<^verbatim>\<open>client.ch\<close> (capacity 64), \<^verbatim>\<open>client.blocks\<close>
  (capacity 8) and \<^verbatim>\<open>client.tip\<close> (capacity 1); \<open>cancelled\<close> says that \<^verbatim>\<open>ctx.Done()\<close> is closed;
  \<open>preload\<close> counts the iterations the loop \<^verbatim>\<open>for i := 0; i < pipeline; i++\<close> has still to run.
  \<open>find_sent\<close>, \<open>next_sent\<close> and \<open>pongs_sent\<close> record what has been written to the connection,
  \<open>answered\<close> how many requests the server has answered, \<open>inbound\<close> the messages it has sent
  that \<^verbatim>\<open>ReadMessage\<close> has not returned yet, and \<open>received\<close> how many \<^verbatim>\<open>ReadMessage\<close> has returned.
\<close>

definition ch_capacity :: nat where
  "ch_capacity = 64"

definition blocks_capacity :: nat where
  "blocks_capacity = 8"

definition init :: "int \<Rightarrow> session" where
  "init pipeline =
     \<lparr>ch = 0, blocks = [], tip = 0, cancelled = False,
      writer = WriterInit, reader = ReaderRead, preload = nat pipeline,
      find_sent = False, next_sent = 0, pongs_sent = 0,
      inbound = [], answered = 0, received = 0\<rparr>"

text \<open>The non-blocking send \<^verbatim>\<open>select { case client.ch <- struct{}{}: default: }\<close>.\<close>

definition offer_credit :: "session \<Rightarrow> session" where
  "offer_credit s = (if ch s < ch_capacity then s\<lparr>ch := ch s + 1\<rparr> else s)"

definition requests_sent :: "session \<Rightarrow> nat" where
  "requests_sent s = (if find_sent s then 1 else 0) + next_sent s"

datatype action =
    Preload
  | WriteInit bool
  | WriterTakesCredit
  | WriterSeesDone
  | WriteNext bool
  | Respond frame
  | Read
  | ReadEOF
  | ReadError
  | Refill
  | WritePong bool
  | Push
  | ReaderSeesDone
  | ReadNext
  | TipReceive
  | Cancel

text \<open>
  The steps, in the order of the source: the pre-load loop; the writer (the first write,
  the two cases of its \<^verbatim>\<open>select\<close>, the write of the next request); the server; the reader
  (\<^verbatim>\<open>ReadMessage\<close> with its three results, the credit refill, the pong, the two cases of
  its \<^verbatim>\<open>select\<close>); the consumer (\<^verbatim>\<open>ReadNext\<close> or a receive on \<^verbatim>\<open>Blocks()\<close>, a receive on \<^verbatim>\<open>Tip()\<close>), which
  has the client only once \<^verbatim>\<open>New\<close> has returned; cancellation of the context from outside.
  A write or read that fails makes its goroutine return the error, which cancels the
  context of the error group; the boolean of a write says whether it succeeded.
\<close>

fun step :: "action \<Rightarrow> session \<Rightarrow> session option" where
  "step Preload s =
     (if preload s > 0 then Some ((offer_credit s)\<lparr>preload := preload s - 1\<rparr>) else None)"
| "step (WriteInit ok) s =
     (if writer s = WriterInit then
        (if ok then Some (s\<lparr>find_sent := True, writer := WriterSelect\<rparr>)
         else Some (s\<lparr>writer := WriterReturned, cancelled := True\<rparr>))
      else None)"
| "step WriterTakesCredit s =
     (if writer s = WriterSelect \<and> ch s > 0
      then Some (s\<lparr>ch := ch s - 1, writer := WriterWrite\<rparr>) else None)"
| "step WriterSeesDone s =
     (if writer s = WriterSelect \<and> cancelled s
      then Some (s\<lparr>writer := WriterReturned\<rparr>) else None)"
| "step (WriteNext ok) s =
     (if writer s = WriterWrite then
        (if ok then Some (s\<lparr>next_sent := next_sent s + 1, writer := WriterSelect\<rparr>)
         else Some (s\<lparr>writer := WriterReturned, cancelled := True\<rparr>))
      else None)"
| "step (Respond f) s =
     (if answered s < requests_sent s
      then Some (s\<lparr>answered := answered s + 1, inbound := inbound s @ [f]\<rparr>) else None)"
| "step Read s =
     (case (reader s, inbound s) of
        (ReaderRead, f # fs) \<Rightarrow>
          Some (s\<lparr>inbound := fs, received := received s + 1, reader := ReaderRefill f\<rparr>)
      | _ \<Rightarrow> None)"
| "step ReadEOF s =
     (if reader s = ReaderRead then Some (s\<lparr>reader := ReaderReturned\<rparr>) else None)"
| "step ReadError s =
     (if reader s = ReaderRead
      then Some (s\<lparr>reader := ReaderReturned, cancelled := True\<rparr>) else None)"
| "step Refill s =
     (case reader s of
        ReaderRefill f \<Rightarrow>
          Some ((offer_credit s)
                  \<lparr>reader := (if fst f = PingMessage then ReaderPong f else ReaderPush f)\<rparr>)
      | _ \<Rightarrow> None)"
| "step (WritePong ok) s =
     (case reader s of
        ReaderPong f \<Rightarrow>
          (if ok then Some (s\<lparr>pongs_sent := pongs_sent s + 1, reader := ReaderPush f\<rparr>)
           else Some (s\<lparr>reader := ReaderReturned, cancelled := True\<rparr>))
      | _ \<Rightarrow> None)"
| "step Push s =
     (case reader s of
        ReaderPush f \<Rightarrow>
          (if length (blocks s) < blocks_capacity
           then Some (s\<lparr>blocks := blocks s @ [snd f], reader := ReaderRead\<rparr>) else None)
      | _ \<Rightarrow> None)"
| "step ReaderSeesDone s =
     (case reader s of
        ReaderPush f \<Rightarrow> (if cancelled s then Some (s\<lparr>reader := ReaderReturned\<rparr>) else None)
      | _ \<Rightarrow> None)"
| "step ReadNext s =
     (case blocks s of
        b # bs \<Rightarrow> (if preload s = 0 then Some (s\<lparr>blocks := bs\<rparr>) else None)
      | [] \<Rightarrow> None)"
| "step TipReceive s =
     (if tip s > 0 \<and> preload s = 0 then Some (s\<lparr>tip := tip s - 1\<rparr>) else None)"
| "step Cancel s = Some (s\<lparr>cancelled := True\<rparr>)"

text \<open>An interleaving runs from a state when each of its steps is enabled in turn.\<close>

fun run :: "action list \<Rightarrow> session \<Rightarrow> session option" where
  "run [] s = Some s"
| "run (a # as) s = (case step a s of None \<Rightarrow> None | Some s' \<Rightarrow> run as s')"

text \<open>
  The \<^verbatim>\<open>RequestNext\<close> requests outstanding: those written minus the answers to them that
  \<^verbatim>\<open>ReadMessage\<close> has returned, which are all messages received but the first.
\<close>

definition next_received :: "session \<Rightarrow> nat" where
  "next_received s = received s - 1"

definition outstanding :: "session \<Rightarrow> int" where
  "outstanding s = int (next_sent s) - int (next_received s)"

text \<open>
  An interleaving in which the writer sends \<^verbatim>\<open>FindIntersect\<close> and the pre-load loop runs,
  the writer then uses the \<open>n\<close> credits, the server answers \<^verbatim>\<open>FindIntersect\<close>, the reader
  refills one credit for that answer and the writer uses it.
\<close>

definition eager_writer :: "nat \<Rightarrow> action list" where
  "eager_writer n =
     WriteInit True # replicate n Preload
     @ concat (replicate n [WriterTakesCredit, WriteNext True])
     @ [Respond (TextMessage, ''{}''), Read, Refill, WriterTakesCredit, WriteNext True]"

text \<open>
  The credit count: every credit that exists or has been used (buffered in \<open>ch\<close>, held by
  the writer between its receive and its write, spent on a \<^verbatim>\<open>RequestNext\<close>, still to be
  pre-loaded, or about to be refilled by the reader) is paid for by one of the \<open>pipeline\<close>
  pre-loaded credits or by one received message.
\<close>

definition credits_inv :: "int \<Rightarrow> session \<Rightarrow> bool" where
  "credits_inv pipeline s =
     (ch s + (if writer s = WriterWrite then 1 else 0) + next_sent s + preload s
        + (case reader s of ReaderRefill f \<Rightarrow> 1 | _ \<Rightarrow> 0)
      \<le> nat pipeline + received s)"

section \<open>Proofs: the value algebra\<close>

subsection \<open>Facts about the loops\<close>

lemma keys_empty: "keys DAList.empty = {}"
  by (simp add: keys_def DAList.empty.rep_eq)

lemma keys_update: "keys (DAList.update k v m) = insert k (keys m)"
  by (simp add: keys_def DAList.update.rep_eq dom_update)

lemma keys_fold_copy: "keys (fold copy_step xs r) = keys r \<union> fst ` set xs"
  by (induction xs arbitrary: r) (auto simp: copy_step_def keys_update)

lemma keys_fold_add: "keys (fold add_step xs r) = keys r \<union> fst ` set xs"
  by (induction xs arbitrary: r) (auto simp: add_step_def keys_update)

lemma keys_fold_sub: "keys (fold sub_step xs r) = keys r \<union> fst ` set xs"
  by (induction xs arbitrary: r) (auto simp: sub_step_def keys_update)

lemma keys_Add: "keys (Assets (Add a b)) = keys (Assets a) \<union> keys (Assets b)"
  by (simp add: Add_def keys_fold_add keys_fold_copy keys_empty) (simp add: keys_def)

lemma keys_Subtract: "keys (Assets (Subtract a b)) = keys (Assets a) \<union> keys (Assets b)"
  by (simp add: Subtract_def keys_fold_sub keys_fold_copy keys_empty) (simp add: keys_def)

lemma map_index_update:
  "map_index (DAList.update k v m) k' = (if k' = k then v else map_index m k')"
  by (simp add: map_index_def)

lemma map_index_fold_copy:
  "distinct (map fst xs) \<Longrightarrow>
   map_index (fold copy_step xs r) k =
     (case map_of xs k of None \<Rightarrow> map_index r k | Some v \<Rightarrow> v)"
proof (induction xs arbitrary: r)
  case Nil
  then show ?case by simp
next
  case (Cons e xs)
  obtain k' v' where e: "e = (k', v')" by (cases e)
  from Cons.prems have d: "distinct (map fst xs)" and n: "k' \<notin> fst ` set xs"
    by (auto simp: e)
  from n have none: "map_of xs k' = None"
    by (simp add: map_of_eq_None_iff)
  show ?case
    using Cons.IH [OF d, of "copy_step e r"] none
    by (auto simp: e copy_step_def map_index_update split: option.splits)
qed

lemma map_index_fold_add:
  "distinct (map fst xs) \<Longrightarrow>
   map_index (fold add_step xs r) k =
     (case map_of xs k of None \<Rightarrow> map_index r k | Some v \<Rightarrow> map_index r k + v)"
proof (induction xs arbitrary: r)
  case Nil
  then show ?case by simp
next
  case (Cons e xs)
  obtain k' v' where e: "e = (k', v')" by (cases e)
  from Cons.prems have d: "distinct (map fst xs)" and n: "k' \<notin> fst ` set xs"
    by (auto simp: e)
  from n have none: "map_of xs k' = None"
    by (simp add: map_of_eq_None_iff)
  show ?case
    using Cons.IH [OF d, of "add_step e r"] none
    by (auto simp: e add_step_def Int_Add_def map_index_update split: option.splits)
qed

lemma map_index_fold_sub:
  "distinct (map fst xs) \<Longrightarrow>
   map_index (fold sub_step xs r) k =
     (case map_of xs k of None \<Rightarrow> map_index r k | Some v \<Rightarrow> map_index r k - v)"
proof (induction xs arbitrary: r)
  case Nil
  then show ?case by simp
next
  case (Cons e xs)
  obtain k' v' where e: "e = (k', v')" by (cases e)
  from Cons.prems have d: "distinct (map fst xs)" and n: "k' \<notin> fst ` set xs"
    by (auto simp: e)
  from n have none: "map_of xs k' = None"
    by (simp add: map_of_eq_None_iff)
  show ?case
    using Cons.IH [OF d, of "sub_step e r"] none
    by (auto simp: e sub_step_def Int_Sub_def map_index_update split: option.splits)
qed

lemma map_index_copy:
  "map_index (fold copy_step (DAList.impl_of m) DAList.empty) k = map_index m k"
proof -
  have "map_index (fold copy_step (DAList.impl_of m) DAList.empty) k =
        (case map_of (DAList.impl_of m) k of None \<Rightarrow> map_index DAList.empty k | Some v \<Rightarrow> v)"
    by (rule map_index_fold_copy) simp
  also have "\<dots> = map_index m k"
    by (simp add: map_index_def DAList.lookup.rep_eq DAList.empty.rep_eq split: option.splits)
  finally show ?thesis .
qed

lemma map_index_Add:
  "map_index (Assets (Add a b)) k = map_index (Assets a) k + map_index (Assets b) k"
  by (simp add: Add_def map_index_fold_add map_index_copy split: option.splits)
     (simp add: map_index_def DAList.lookup.rep_eq)

lemma map_index_Subtract:
  "map_index (Assets (Subtract a b)) k = map_index (Assets a) k - map_index (Assets b) k"
  by (simp add: Subtract_def map_index_fold_sub map_index_copy split: option.splits)
     (simp add: map_index_def DAList.lookup.rep_eq)

lemma Coins_Add: "Coins (Add a b) = Coins a + Coins b"
  by (simp add: Add_def Int_Add_def)

lemma Coins_Subtract: "Coins (Subtract a b) = Coins a - Coins b"
  by (simp add: Subtract_def Int_Sub_def)

lemma Int_Int64_word: "Int_Int64 x = word_of_int x"
  by (simp add: Int_Int64_def)

lemma sint_Int_Int64: "- (2 ^ 63) \<le> x \<Longrightarrow> x < 2 ^ 63 \<Longrightarrow> sint (Int_Int64 x) = x"
  by (simp add: Int_Int64_word sint_sbintrunc' signed_take_bit_int_eq_self)

subsection \<open>What \<^verbatim>\<open>Enough\<close> decides\<close>

lemma int64_less_exact:
  "fits_int64 x \<Longrightarrow> fits_int64 y \<Longrightarrow> int64_less (Int_Int64 x) (Int_Int64 y) = (x < y)"
  by (simp add: int64_less_def sint_Int_Int64 fits_int64_def)

text \<open>
  No conversion of arbitrary-precision integers to \<^verbatim>\<open>int64\<close> keeps their order, whatever it
  returns outside the range: two different integers below \<open>2 ^ 64 + 1\<close> get the same word.
\<close>

lemma no_exact_conversion_to_int64:
  fixes f :: "int \<Rightarrow> int64"
  shows "\<exists>x y. x < y \<and> \<not> int64_less (f x) (f y)"
proof -
  have "\<not> inj_on f {0..2 ^ 64}"
  proof
    assume "inj_on f {0..2 ^ 64}"
    then have "card (f ` {0..2 ^ 64}) = card {0..2 ^ 64 :: int}"
      by (rule card_image)
    moreover have "card (f ` {0..2 ^ 64}) \<le> card (UNIV :: int64 set)"
      by (rule card_mono) auto
    ultimately show False
      by (simp add: card_word)
  qed
  then obtain x y where "x \<noteq> y" and same: "f x = f y"
    by (auto simp: inj_on_def)
  then consider "x < y" | "y < x"
    by linarith
  then show ?thesis
  proof cases
    case 1
    with same have "x < y \<and> \<not> int64_less (f x) (f y)"
      by (simp add: int64_less_def)
    then show ?thesis by blast
  next
    case 2
    with same have "y < x \<and> \<not> int64_less (f y) (f x)"
      by (simp add: int64_less_def)
    then show ?thesis by blast
  qed
qed

lemma Enough_loop_exact:
  "\<forall>k. fits_int64 (map_index h k) \<Longrightarrow> \<forall>e \<in> set ws. fits_int64 (snd e) \<Longrightarrow>
   fst (Enough_loop h ws) = (\<forall>e \<in> set ws. snd e \<le> map_index h (fst e))"
  by (induction ws) (auto simp: int64_less_exact split: if_splits)

lemma Enough_loop_error:
  "Enough_loop h ws = (ok, err) \<Longrightarrow>
   (ok \<and> err = None) \<or>
   (\<not> ok \<and> (\<exists>e \<in> set ws. err = Some (''not enough '' @ fst e @ '' to meet demand'')
        \<and> int64_less (Int_Int64 (map_index h (fst e))) (Int_Int64 (snd e))))"
  by (induction ws) (auto split: if_splits)

lemma map_index_entry:
  "e \<in> set (DAList.impl_of m) \<Longrightarrow> map_index m (fst e) = snd e"
  by (cases e) (simp add: map_index_def DAList.lookup.rep_eq)

text \<open>
  Where every amount involved fits an \<^verbatim>\<open>int64\<close>, \<^verbatim>\<open>Enough\<close> answers as an exact comparison
  would; and whenever it answers false, its error names the coin or an asset of \<open>want\<close>
  whose comparison came out short.
\<close>

lemma Enough_exact_within_int64:
  assumes "fits_int64 (Coins have)" "fits_int64 (Coins want)"
    and "\<forall>k. fits_int64 (map_index (Assets have) k)"
    and "\<forall>k. fits_int64 (map_index (Assets want) k)"
  shows "fst (Enough have want) =
     (Coins want \<le> Coins have \<and>
      (\<forall>k \<in> keys (Assets want). map_index (Assets want) k \<le> map_index (Assets have) k))"
proof -
  have fits: "\<forall>e \<in> set (DAList.impl_of (Assets want)). fits_int64 (snd e)"
    using assms(4) map_index_entry by metis
  have "(\<forall>e \<in> set (DAList.impl_of (Assets want)). snd e \<le> map_index (Assets have) (fst e)) =
        (\<forall>k \<in> keys (Assets want). map_index (Assets want) k \<le> map_index (Assets have) k)"
    by (auto simp: keys_def map_index_entry)
  with Enough_loop_exact [OF assms(3) fits] show ?thesis
    using assms(1,2) by (auto simp: Enough_def int64_less_exact)
qed

lemma Enough_error_names_shortfall:
  assumes "Enough have want = (ok, err)"
  shows "(ok \<and> err = None)
     \<or> (\<not> ok \<and> err = Some ''not enough ADA to meet demand''
          \<and> int64_less (Int_Int64 (Coins have)) (Int_Int64 (Coins want)))
     \<or> (\<not> ok \<and> (\<exists>e \<in> set (DAList.impl_of (Assets want)).
            err = Some (''not enough '' @ fst e @ '' to meet demand'')
            \<and> int64_less (Int_Int64 (map_index (Assets have) (fst e))) (Int_Int64 (snd e))))"
proof (cases "int64_less (Int_Int64 (Coins have)) (Int_Int64 (Coins want))")
  case True
  with assms show ?thesis by (auto simp: Enough_def)
next
  case False
  with assms have "Enough_loop (Assets have) (DAList.impl_of (Assets want)) = (ok, err)"
    by (simp add: Enough_def)
  from Enough_loop_error [OF this] show ?thesis by blast
qed

subsection \<open>Claims about the value algebra\<close>

text \<open>
  C3. \<^verbatim>\<open>Enough\<close> is claimed to compare exact arbitrary-precision amounts. The code compares
  the \<^verbatim>\<open>Int64()\<close> conversions instead, so amounts outside the signed 64-bit range are
  compared after truncation: a holder of nothing is reported to cover a demand of \<open>2 ^ 63\<close>
  coins or of \<open>2 ^ 64\<close> units of an asset, and a holder of \<open>2 ^ 64\<close> coins is reported
  short of a demand of one coin. On the example of 100 coins and 5 of X against 50 coins
  and 10 of X the answer is the expected one and names X; \<open>Enough_exact_within_int64\<close> and
  \<open>Enough_error_names_shortfall\<close> above say how far the claim holds.
\<close>

theorem Enough_compares_truncated_amounts:
  "Enough \<lparr>Coins = 0, Assets = DAList.empty\<rparr> \<lparr>Coins = 2 ^ 63, Assets = DAList.empty\<rparr>
     = (True, None)
   \<and> Enough \<lparr>Coins = 0, Assets = DAList.empty\<rparr>
        \<lparr>Coins = 0, Assets = DAList.update ''X'' (2 ^ 64) DAList.empty\<rparr>
     = (True, None)
   \<and> Enough \<lparr>Coins = 2 ^ 64, Assets = DAList.empty\<rparr> \<lparr>Coins = 1, Assets = DAList.empty\<rparr>
     = (False, Some ''not enough ADA to meet demand'')
   \<and> Enough \<lparr>Coins = 100, Assets = DAList.update ''X'' 5 DAList.empty\<rparr>
        \<lparr>Coins = 50, Assets = DAList.update ''X'' 10 DAList.empty\<rparr>
     = (False, Some ''not enough X to meet demand'')"
  by (simp add: Enough_def Int_Int64_def int64_less_def DAList.empty.rep_eq
        DAList.update.rep_eq map_index_def)

text \<open>
  C4. \<^verbatim>\<open>Subtract(Add(a, b), b)\<close> is claimed to equal \<open>a\<close>, also when \<open>b\<close> has asset keys
  that \<open>a\<close> lacks. Both operations build the union of the key sets, so such a key stays in
  the result with amount 0 and the result is not \<open>a\<close>.
\<close>

theorem Subtract_Add_not_identity:
  "Subtract (Add \<lparr>Coins = 5, Assets = DAList.empty\<rparr>
                 \<lparr>Coins = 0, Assets = DAList.update ''X'' 1 DAList.empty\<rparr>)
            \<lparr>Coins = 0, Assets = DAList.update ''X'' 1 DAList.empty\<rparr>
     = \<lparr>Coins = 5, Assets = DAList.update ''X'' 0 DAList.empty\<rparr>
   \<and> DAList.lookup (DAList.update ''X'' (0::int) DAList.empty) ''X'' = Some 0
   \<and> DAList.lookup (DAList.empty :: (AssetID, num_Int) alist) ''X'' = None
   \<and> \<lparr>Coins = 5, Assets = DAList.update ''X'' 0 DAList.empty\<rparr>
       \<noteq> \<lparr>Coins = (5::int), Assets = DAList.empty\<rparr>"
  by (simp add: Subtract_def Add_def Int_Add_def Int_Sub_def DAList.update.rep_eq
        DAList.empty.rep_eq add_step_def sub_step_def copy_step_def map_index_def
        alist_eq_iff)

text \<open>
  C4, amended. \<^verbatim>\<open>Subtract(Add(a, b), b)\<close> has the coins of \<open>a\<close> and, for every asset key,
  the amount \<open>a\<close> has for it (zero where \<open>a\<close> lacks the key); its key set is the union of
  the key sets of \<open>a\<close> and \<open>b\<close>, so keys that only \<open>b\<close> has remain with amount zero.
\<close>

theorem Subtract_Add_same_amounts:
  "Coins (Subtract (Add a b) b) = Coins a
   \<and> (\<forall>k. map_index (Assets (Subtract (Add a b) b)) k = map_index (Assets a) k)
   \<and> keys (Assets (Subtract (Add a b) b)) = keys (Assets a) \<union> keys (Assets b)"
  by (simp add: map_index_Subtract map_index_Add keys_Subtract keys_Add
        Coins_Add Coins_Subtract)

text \<open>
  C8. Neither \<^verbatim>\<open>Add\<close> nor \<^verbatim>\<open>Subtract\<close> introduces an asset key that both operands lack: the
  key set of either result lies within the union of the operands' key sets.
\<close>

theorem Add_Subtract_keys_within_operands:
  "keys (Assets (Add a b)) \<subseteq> keys (Assets a) \<union> keys (Assets b)
   \<and> keys (Assets (Subtract a b)) \<subseteq> keys (Assets a) \<union> keys (Assets b)"
  by (simp add: keys_Add keys_Subtract)

section \<open>Proofs: the compatibility decoders and accessors\<close>

subsection \<open>The decoders on the sample payloads\<close>

lemmas sample_defs =
  sample_library_def sample_envelope_def sample_ResultFindIntersectionPraos_def
  sample_ResultFindIntersectionV5_def sample_ResponseV5_def sample_ResultNextBlockPraos_def
  sample_json_objects_def
  legacy_not_found_response_def legacy_found_response_def legacy_not_found_result_def
  legacy_found_result_def current_find_response_def current_find_result_def
  current_next_response_def current_next_result_def not_an_object_def
  empty_object_def result_without_intersection_def

lemmas inner_decoder_defs =
  ResponsePraos_UnmarshalJSON_def json_Unmarshal_via_def
  CompatibleResultFindIntersection_UnmarshalJSON_def
  FindIntersectionMethod_def NextBlockMethod_def no_error_and_def deref_def
  zero_ResultFindIntersectionPraos_def

lemma sample_not_current_legacy_not_found_result:
  "no_error_and (json_Unmarshal_ResultFindIntersectionPraos sample_library legacy_not_found_result)
     (\<lambda>r. Praos_Tip r \<noteq> None) = None"
  by (simp add: no_error_and_def zero_ResultFindIntersectionPraos_def sample_defs)

lemma sample_V5_legacy_not_found_result:
  "json_Unmarshal_ResultFindIntersectionV5 sample_library legacy_not_found_result =
     Inr decoded_legacy_not_found_result"
  by (simp add: sample_defs)

lemma sample_not_current_legacy_found_result:
  "no_error_and (json_Unmarshal_ResultFindIntersectionPraos sample_library legacy_found_result)
     (\<lambda>r. Praos_Tip r \<noteq> None) = None"
  by (simp add: no_error_and_def zero_ResultFindIntersectionPraos_def sample_defs)

lemma sample_V5_legacy_found_result:
  "json_Unmarshal_ResultFindIntersectionV5 sample_library legacy_found_result =
     Inr decoded_legacy_found_result"
  by (simp add: sample_defs)

lemma sample_current_parse_legacy_not_found_response:
  "json_Unmarshal_via sample_library (ResponsePraos_UnmarshalJSON sample_library)
     zero_ResponsePraos legacy_not_found_response =
   Returns (zero_ResponsePraos, Some (unknown_method_error []))"
  by (simp add: inner_decoder_defs sample_defs zero_ResponsePraos_def)

lemma sample_ResponseV5_legacy_not_found_response:
  "json_Unmarshal_ResponseV5 sample_library legacy_not_found_response =
     Inr decoded_legacy_not_found_response"
  by (simp add: sample_defs)

lemma sample_current_parse_legacy_found_response:
  "json_Unmarshal_via sample_library (ResponsePraos_UnmarshalJSON sample_library)
     zero_ResponsePraos legacy_found_response =
   Returns (zero_ResponsePraos, Some (unknown_method_error []))"
  by (simp add: inner_decoder_defs sample_defs zero_ResponsePraos_def)

lemma sample_ResponseV5_legacy_found_response:
  "json_Unmarshal_ResponseV5 sample_library legacy_found_response =
     Inr decoded_legacy_found_response"
  by (simp add: sample_defs)












lemma sample_decode_current_find_response:
  "ResponsePraos_UnmarshalJSON sample_library zero_ResponsePraos current_find_response =
   Returns
     (\<lparr>Response_JsonRpc = ''2.0'', Response_Method = ''findIntersection'',
       Response_Result = Dyn_CompatibleResultFindIntersection zero_ResultFindIntersectionPraos,
       Response_Error = None, Response_ID = None\<rparr>, None)"
  by (simp add: inner_decoder_defs sample_defs zero_ResponsePraos_def)

lemma sample_decode_current_next_response:
  "ResponsePraos_UnmarshalJSON sample_library zero_ResponsePraos current_next_response =
   Returns
     (\<lparr>Response_JsonRpc = ''2.0'', Response_Method = ''nextBlock'',
       Response_Result =
         Dyn_ResultNextBlockPraos
           \<lparr>NextBlock_Direction = [], NextBlock_Tip = Some sample_tip,
            NextBlock_Block = None, NextBlock_Point = Some Origin\<rparr>,
       Response_Error = None, Response_ID = None\<rparr>, None)"
  by (simp add: inner_decoder_defs sample_defs zero_ResponsePraos_def)

subsection \<open>The legacy branches\<close>

lemma result_not_found_panics:
  "no_error_and (json_Unmarshal_ResultFindIntersectionPraos L data) (\<lambda>r. Praos_Tip r \<noteq> None) = None \<Longrightarrow>
   json_Unmarshal_ResultFindIntersectionV5 L data = Inr legacy \<Longrightarrow>
   V5_IntersectionFound legacy = None \<Longrightarrow> V5_IntersectionNotFound legacy = Some nf \<Longrightarrow>
   CompatibleResultFindIntersection_UnmarshalJSON L c data = Panics NilPointerDereference"
  by (simp add: CompatibleResultFindIntersection_UnmarshalJSON_def deref_def)

lemma response_not_found_panics:
  "json_Unmarshal_via L (ResponsePraos_UnmarshalJSON L) zero_ResponsePraos data = Returns (r, err) \<Longrightarrow>
   err \<noteq> None \<or> Response_Result r = Nil \<Longrightarrow>
   json_Unmarshal_ResponseV5 L data = Inr legacy \<Longrightarrow>
   ResponseV5_Result legacy = Some res \<Longrightarrow>
   ResultV5_IntersectionFound res = None \<Longrightarrow> ResultV5_IntersectionNotFound res = Some nf \<Longrightarrow>
   CompatibleResponsePraos_UnmarshalJSON L c data = Panics NilPointerDereference"
  by (auto simp add: CompatibleResponsePraos_UnmarshalJSON_def deref_def)

lemma response_found_panics:
  "json_Unmarshal_via L (ResponsePraos_UnmarshalJSON L) zero_ResponsePraos data = Returns (r, err) \<Longrightarrow>
   err \<noteq> None \<or> Response_Result r = Nil \<Longrightarrow>
   json_Unmarshal_ResponseV5 L data = Inr legacy \<Longrightarrow>
   ResponseV5_Result legacy = Some res \<Longrightarrow>
   ResultV5_IntersectionFound res = Some found \<Longrightarrow>
   CompatibleResponsePraos_UnmarshalJSON L c data = Panics NilPointerDereference"
  by (auto simp add: CompatibleResponsePraos_UnmarshalJSON_def deref_def zero_Point_def Let_def
        split: option.splits)

lemma result_found_slot_zero:
  "no_error_and (json_Unmarshal_ResultFindIntersectionPraos L data) (\<lambda>r. Praos_Tip r \<noteq> None) = None \<Longrightarrow>
   json_Unmarshal_ResultFindIntersectionV5 L data = Inr legacy \<Longrightarrow>
   V5_IntersectionFound legacy = Some found \<Longrightarrow> IntersectionFoundV5_Tip found = Some ltip \<Longrightarrow>
   CompatibleResultFindIntersection_UnmarshalJSON L c data =
     Returns
       (c\<lparr>Praos_Intersection := IntersectionFoundV5_Point found,
          Praos_Tip := Some \<lparr>Tip_Slot = 0, Tip_ID = TipV5_Hash ltip, Tip_Height = TipV5_BlockNo ltip\<rparr>,
          Praos_Error := None, Praos_ID := None\<rparr>, None)"
  by (simp add: CompatibleResultFindIntersection_UnmarshalJSON_def deref_def)






lemma decoded_response_cases:
  assumes "ResponsePraos_UnmarshalJSON L r0 b = Returns (r, None)"
  shows "(Response_Method r = FindIntersectionMethod \<and>
          (\<exists>v. Response_Result r = Dyn_CompatibleResultFindIntersection v))
       \<or> (Response_Method r = NextBlockMethod \<and> Response_Method r \<noteq> FindIntersectionMethod \<and>
          (\<exists>v. Response_Result r = Dyn_ResultNextBlockPraos v))"
  using assms
  by (auto simp: ResponsePraos_UnmarshalJSON_def Let_def
        split: sum.splits if_splits outcome.splits option.splits prod.splits)

subsection \<open>Claims about the decoders\<close>

text \<open>
  C1. A legacy payload whose result is "intersection not found" is claimed to decode, through
  either compatibility decoder, to an error object with code 1000 and the payload's own tip.
  In the code both decoders read the tip through the "intersection found" pointer, which
  is \<^verbatim>\<open>nil\<close> in this branch: whatever the libraries return, \<^verbatim>\<open>CompatibleResultFindIntersection\<close>
  and \<^verbatim>\<open>CompatibleResponsePraos\<close> panic with a nil-pointer dereference on every payload that
  is not accepted as current shape and whose legacy decoding has only the not-found result.
\<close>

theorem legacy_not_found_panics:
  "(no_error_and (json_Unmarshal_ResultFindIntersectionPraos L data) (\<lambda>r. Praos_Tip r \<noteq> None) = None
      \<and> json_Unmarshal_ResultFindIntersectionV5 L data = Inr legacy
      \<and> V5_IntersectionFound legacy = None \<and> V5_IntersectionNotFound legacy = Some nf
    \<longrightarrow> CompatibleResultFindIntersection_UnmarshalJSON L c data = Panics NilPointerDereference)
   \<and> (json_Unmarshal_via L (ResponsePraos_UnmarshalJSON L) zero_ResponsePraos data' = Returns (r, Some err)
      \<and> json_Unmarshal_ResponseV5 L data' = Inr legacy'
      \<and> ResponseV5_Result legacy' = Some res
      \<and> ResultV5_IntersectionFound res = None \<and> ResultV5_IntersectionNotFound res = Some nf'
    \<longrightarrow> CompatibleResponsePraos_UnmarshalJSON L c' data' = Panics NilPointerDereference)"
  using result_not_found_panics [of L data legacy nf c]
    response_not_found_panics [of L data' r "Some err" legacy' res nf' c']
  by simp

theorem legacy_not_found_panics_witness:
  "json_Unmarshal_ResultFindIntersectionV5 sample_library legacy_not_found_result =
     Inr decoded_legacy_not_found_result
   \<and> V5_IntersectionFound decoded_legacy_not_found_result = None
   \<and> V5_IntersectionNotFound decoded_legacy_not_found_result =
       Some \<lparr>IntersectionNotFoundV5_Tip = Some sample_tip_v5\<rparr>
   \<and> CompatibleResultFindIntersection_UnmarshalJSON sample_library
        zero_ResultFindIntersectionPraos legacy_not_found_result = Panics NilPointerDereference
   \<and> json_Unmarshal_via sample_library (ResponsePraos_UnmarshalJSON sample_library)
        zero_ResponsePraos legacy_not_found_response =
      Returns (zero_ResponsePraos, Some (unknown_method_error []))
   \<and> json_Unmarshal_ResponseV5 sample_library legacy_not_found_response =
      Inr decoded_legacy_not_found_response
   \<and> ResponseV5_Result decoded_legacy_not_found_response =
      Some \<lparr>ResultV5_IntersectionFound = None,
            ResultV5_IntersectionNotFound = Some \<lparr>IntersectionNotFound_Tip = sample_tip_v5\<rparr>\<rparr>
   \<and> CompatibleResponsePraos_UnmarshalJSON sample_library zero_ResponsePraos
        legacy_not_found_response = Panics NilPointerDereference"
proof -
  note at_sample = legacy_not_found_panics
    [where L = sample_library and data = legacy_not_found_result
       and legacy = decoded_legacy_not_found_result
       and nf = "\<lparr>IntersectionNotFoundV5_Tip = Some sample_tip_v5\<rparr>"
       and c = zero_ResultFindIntersectionPraos
       and data' = legacy_not_found_response and r = zero_ResponsePraos
       and err = "unknown_method_error []"
       and legacy' = decoded_legacy_not_found_response
       and res = "\<lparr>ResultV5_IntersectionFound = None,
                   ResultV5_IntersectionNotFound =
                     Some \<lparr>IntersectionNotFound_Tip = sample_tip_v5\<rparr>\<rparr>"
       and nf' = "\<lparr>IntersectionNotFound_Tip = sample_tip_v5\<rparr>"
       and c' = zero_ResponsePraos]
  have found: "V5_IntersectionFound decoded_legacy_not_found_result = None"
    and not_found: "V5_IntersectionNotFound decoded_legacy_not_found_result =
       Some \<lparr>IntersectionNotFoundV5_Tip = Some sample_tip_v5\<rparr>"
    by (simp_all add: decoded_legacy_not_found_result_def)
  have result: "ResponseV5_Result decoded_legacy_not_found_response =
      Some \<lparr>ResultV5_IntersectionFound = None,
            ResultV5_IntersectionNotFound = Some \<lparr>IntersectionNotFound_Tip = sample_tip_v5\<rparr>\<rparr>"
    by (simp add: decoded_legacy_not_found_response_def)
  have first: "CompatibleResultFindIntersection_UnmarshalJSON sample_library
        zero_ResultFindIntersectionPraos legacy_not_found_result = Panics NilPointerDereference"
    using at_sample sample_not_current_legacy_not_found_result
      sample_V5_legacy_not_found_result found not_found
    by blast
  have second: "CompatibleResponsePraos_UnmarshalJSON sample_library zero_ResponsePraos
        legacy_not_found_response = Panics NilPointerDereference"
    using at_sample sample_current_parse_legacy_not_found_response
      sample_ResponseV5_legacy_not_found_response result
    by simp
  show ?thesis
    using first second found not_found result sample_V5_legacy_not_found_result
      sample_current_parse_legacy_not_found_response
      sample_ResponseV5_legacy_not_found_response
    by simp
qed

text \<open>
  C5. A legacy payload whose result is "intersection found" with point P and tip T is claimed
  to decode to \<open>{intersection: P, tip: T, error: none}\<close> with all of T's fields. In the code
  \<^verbatim>\<open>CompatibleResultFindIntersection\<close> copies the hash and the block number of T and sets the
  slot to 0, and \<^verbatim>\<open>CompatibleResponsePraos\<close> panics with a nil-pointer dereference, because it
  assigns through the \<^verbatim>\<open>nil\<close> \<^verbatim>\<open>pointStruct\<close> of a fresh Point.
\<close>

theorem legacy_found_drops_slot_or_panics:
  "(no_error_and (json_Unmarshal_ResultFindIntersectionPraos L data) (\<lambda>r. Praos_Tip r \<noteq> None) = None
      \<and> json_Unmarshal_ResultFindIntersectionV5 L data = Inr legacy
      \<and> V5_IntersectionFound legacy = Some found \<and> IntersectionFoundV5_Tip found = Some ltip
    \<longrightarrow> CompatibleResultFindIntersection_UnmarshalJSON L c data =
          Returns
            (c\<lparr>Praos_Intersection := IntersectionFoundV5_Point found,
               Praos_Tip := Some \<lparr>Tip_Slot = 0, Tip_ID = TipV5_Hash ltip,
                                 Tip_Height = TipV5_BlockNo ltip\<rparr>,
               Praos_Error := None, Praos_ID := None\<rparr>, None))
   \<and> (json_Unmarshal_via L (ResponsePraos_UnmarshalJSON L) zero_ResponsePraos data' = Returns (r, Some err)
      \<and> json_Unmarshal_ResponseV5 L data' = Inr legacy'
      \<and> ResponseV5_Result legacy' = Some res
      \<and> ResultV5_IntersectionFound res = Some found'
    \<longrightarrow> CompatibleResponsePraos_UnmarshalJSON L c' data' = Panics NilPointerDereference)"
  using result_found_slot_zero [of L data legacy found ltip c]
    response_found_panics [of L data' r "Some err" legacy' res found' c']
  by simp

theorem legacy_found_drops_slot_or_panics_witness:
  "json_Unmarshal_ResultFindIntersectionV5 sample_library legacy_found_result =
     Inr decoded_legacy_found_result
   \<and> V5_IntersectionFound decoded_legacy_found_result =
       Some \<lparr>IntersectionFoundV5_Point = Some decoded_legacy_found_point,
             IntersectionFoundV5_Tip = Some sample_tip_v5\<rparr>
   \<and> TipV5_Slot sample_tip_v5 = 7
   \<and> CompatibleResultFindIntersection_UnmarshalJSON sample_library
        zero_ResultFindIntersectionPraos legacy_found_result =
      Returns
        (\<lparr>Praos_Intersection = Some decoded_legacy_found_point,
          Praos_Tip = Some \<lparr>Tip_Slot = 0, Tip_ID = ''ab'', Tip_Height = 3\<rparr>,
          Praos_Error = None, Praos_ID = None\<rparr>, None)
   \<and> json_Unmarshal_via sample_library (ResponsePraos_UnmarshalJSON sample_library)
        zero_ResponsePraos legacy_found_response =
      Returns (zero_ResponsePraos, Some (unknown_method_error []))
   \<and> json_Unmarshal_ResponseV5 sample_library legacy_found_response =
      Inr decoded_legacy_found_response
   \<and> CompatibleResponsePraos_UnmarshalJSON sample_library zero_ResponsePraos
        legacy_found_response = Panics NilPointerDereference"
proof -
  note at_sample = legacy_found_drops_slot_or_panics
    [where L = sample_library and data = legacy_found_result
       and legacy = decoded_legacy_found_result
       and found = "\<lparr>IntersectionFoundV5_Point = Some decoded_legacy_found_point,
                     IntersectionFoundV5_Tip = Some sample_tip_v5\<rparr>"
       and ltip = sample_tip_v5
       and c = zero_ResultFindIntersectionPraos
       and data' = legacy_found_response and r = zero_ResponsePraos
       and err = "unknown_method_error []"
       and legacy' = decoded_legacy_found_response
       and res = "\<lparr>ResultV5_IntersectionFound =
                     Some \<lparr>IntersectionFound_Point =
                             \<lparr>PointV5_pointType = 0, PointV5_pointString = [],
                              PointV5_pointStruct = None\<rparr>,
                           IntersectionFound_Tip = sample_tip_v5\<rparr>,
                   ResultV5_IntersectionNotFound = None\<rparr>"
       and found' = "\<lparr>IntersectionFound_Point =
                        \<lparr>PointV5_pointType = 0, PointV5_pointString = [],
                         PointV5_pointStruct = None\<rparr>,
                      IntersectionFound_Tip = sample_tip_v5\<rparr>"
       and c' = zero_ResponsePraos]
  have found: "V5_IntersectionFound decoded_legacy_found_result =
       Some \<lparr>IntersectionFoundV5_Point = Some decoded_legacy_found_point,
             IntersectionFoundV5_Tip = Some sample_tip_v5\<rparr>"
    by (simp add: decoded_legacy_found_result_def)
  have ltip: "IntersectionFoundV5_Tip
       \<lparr>IntersectionFoundV5_Point = Some decoded_legacy_found_point,
        IntersectionFoundV5_Tip = Some sample_tip_v5\<rparr> = Some sample_tip_v5"
    by simp
  have result: "ResponseV5_Result decoded_legacy_found_response =
      Some \<lparr>ResultV5_IntersectionFound =
              Some \<lparr>IntersectionFound_Point =
                      \<lparr>PointV5_pointType = 0, PointV5_pointString = [],
                       PointV5_pointStruct = None\<rparr>,
                    IntersectionFound_Tip = sample_tip_v5\<rparr>,
            ResultV5_IntersectionNotFound = None\<rparr>"
    by (simp add: decoded_legacy_found_response_def)
  have first: "CompatibleResultFindIntersection_UnmarshalJSON sample_library
        zero_ResultFindIntersectionPraos legacy_found_result =
      Returns
        (zero_ResultFindIntersectionPraos
           \<lparr>Praos_Intersection :=
              IntersectionFoundV5_Point
                \<lparr>IntersectionFoundV5_Point = Some decoded_legacy_found_point,
                 IntersectionFoundV5_Tip = Some sample_tip_v5\<rparr>,
            Praos_Tip := Some \<lparr>Tip_Slot = 0, Tip_ID = TipV5_Hash sample_tip_v5,
                              Tip_Height = TipV5_BlockNo sample_tip_v5\<rparr>,
            Praos_Error := None, Praos_ID := None\<rparr>, None)"
    using at_sample sample_not_current_legacy_found_result sample_V5_legacy_found_result
      found ltip
    by blast
  have second: "CompatibleResponsePraos_UnmarshalJSON sample_library zero_ResponsePraos
        legacy_found_response = Panics NilPointerDereference"
    using at_sample sample_current_parse_legacy_found_response
      sample_ResponseV5_legacy_found_response result
    by simp
  show ?thesis
    using first second found sample_V5_legacy_found_result
      sample_current_parse_legacy_found_response sample_ResponseV5_legacy_found_response
    by (simp add: sample_tip_v5_def zero_ResultFindIntersectionPraos_def)
qed




text \<open>
  C9. After a successful \<^verbatim>\<open>ResponsePraos.UnmarshalJSON\<close>, \<^verbatim>\<open>MustNextBlockResult\<close> panics exactly
  when the method is not "nextBlock" and otherwise returns the decoded result, as claimed.
  \<^verbatim>\<open>MustFindIntersectResult\<close> is claimed to panic exactly when the method is not
  "findIntersection"; in the code it panics for every decoded response, also when the method
  is "findIntersection": the decoder stores a \<^verbatim>\<open>CompatibleResultFindIntersection\<close> in
  \<^verbatim>\<open>Result\<close>, and the accessor's type assertion asks for a \<^verbatim>\<open>ResultFindIntersectionPraos\<close>.
\<close>

theorem must_accessors_after_decode:
  assumes "ResponsePraos_UnmarshalJSON L r0 b = Returns (r, None)"
  shows "(Response_Method r = FindIntersectionMethod \<longrightarrow>
            MustFindIntersectResult r = Panics InterfaceConversion)
       \<and> (Response_Method r \<noteq> FindIntersectionMethod \<longrightarrow>
            MustFindIntersectResult r =
              Panics (PanicError (must_error ''findIntersection'' (Response_Method r))))
       \<and> (Response_Method r = NextBlockMethod \<longrightarrow>
            (\<exists>v. Response_Result r = Dyn_ResultNextBlockPraos v \<and> MustNextBlockResult r = Returns v))
       \<and> (Response_Method r \<noteq> NextBlockMethod \<longrightarrow>
            MustNextBlockResult r =
              Panics (PanicError (must_error ''nextBlock'' (Response_Method r))))"
  using decoded_response_cases [OF assms]
  by (auto simp: MustFindIntersectResult_def MustNextBlockResult_def FindIntersectionMethod_def
        NextBlockMethod_def)

theorem must_accessors_after_decode_witness:
  "ResponsePraos_UnmarshalJSON sample_library zero_ResponsePraos current_find_response =
     Returns
       (\<lparr>Response_JsonRpc = ''2.0'', Response_Method = ''findIntersection'',
         Response_Result = Dyn_CompatibleResultFindIntersection zero_ResultFindIntersectionPraos,
         Response_Error = None, Response_ID = None\<rparr>, None)
   \<and> MustFindIntersectResult
       \<lparr>Response_JsonRpc = ''2.0'', Response_Method = ''findIntersection'',
        Response_Result = Dyn_CompatibleResultFindIntersection zero_ResultFindIntersectionPraos,
        Response_Error = None, Response_ID = None\<rparr> = Panics InterfaceConversion
   \<and> MustNextBlockResult
       \<lparr>Response_JsonRpc = ''2.0'', Response_Method = ''findIntersection'',
        Response_Result = Dyn_CompatibleResultFindIntersection zero_ResultFindIntersectionPraos,
        Response_Error = None, Response_ID = None\<rparr> =
      Panics (PanicError (must_error ''nextBlock'' ''findIntersection''))
   \<and> ResponsePraos_UnmarshalJSON sample_library zero_ResponsePraos current_next_response =
     Returns
       (\<lparr>Response_JsonRpc = ''2.0'', Response_Method = ''nextBlock'',
         Response_Result =
           Dyn_ResultNextBlockPraos
             \<lparr>NextBlock_Direction = [], NextBlock_Tip = Some sample_tip,
              NextBlock_Block = None, NextBlock_Point = Some Origin\<rparr>,
         Response_Error = None, Response_ID = None\<rparr>, None)
   \<and> MustNextBlockResult
       \<lparr>Response_JsonRpc = ''2.0'', Response_Method = ''nextBlock'',
        Response_Result =
          Dyn_ResultNextBlockPraos
            \<lparr>NextBlock_Direction = [], NextBlock_Tip = Some sample_tip,
             NextBlock_Block = None, NextBlock_Point = Some Origin\<rparr>,
        Response_Error = None, Response_ID = None\<rparr> =
      Returns \<lparr>NextBlock_Direction = [], NextBlock_Tip = Some sample_tip,
               NextBlock_Block = None, NextBlock_Point = Some Origin\<rparr>
   \<and> MustFindIntersectResult
       \<lparr>Response_JsonRpc = ''2.0'', Response_Method = ''nextBlock'',
        Response_Result =
          Dyn_ResultNextBlockPraos
            \<lparr>NextBlock_Direction = [], NextBlock_Tip = Some sample_tip,
             NextBlock_Block = None, NextBlock_Point = Some Origin\<rparr>,
        Response_Error = None, Response_ID = None\<rparr> =
      Panics (PanicError (must_error ''findIntersection'' ''nextBlock''))"
  using must_accessors_after_decode [OF sample_decode_current_find_response]
    must_accessors_after_decode [OF sample_decode_current_next_response]
  by (simp add: sample_decode_current_find_response sample_decode_current_next_response
        FindIntersectionMethod_def NextBlockMethod_def)

section \<open>Proofs: the Point codecs\<close>

lemma pointCBOR_eta:
  "\<lparr>pointCBOR_String = pointCBOR_String v, pointCBOR_Struct = pointCBOR_Struct v\<rparr> = v"
  by (cases v) simp

lemma json_round_trip:
  "UnmarshalJSON L p0 data = Returns (p, None) \<Longrightarrow>
   (\<forall>s. json_Unmarshal_string L data = Inr s \<longrightarrow> json_Marshal_string L s = Inr data) \<Longrightarrow>
   (\<forall>ps. json_Unmarshal_PointStruct L data = Inr ps \<longrightarrow>
      json_Marshal_PointStruct L (Some ps) = Inr data) \<Longrightarrow>
   MarshalJSON L p = Inr data"
  by (auto simp: UnmarshalJSON_def MarshalJSON_def PointTypeString_def PointTypeStruct_def
        split: list.splits if_splits sum.splits)

text \<open>
  What \<^verbatim>\<open>MarshalCBOR\<close> hands to the library is exactly the record that the library decoded
  for \<^verbatim>\<open>UnmarshalCBOR\<close>.
\<close>

lemma cbor_reencode:
  assumes ne: "data \<noteq> []" "data \<noteq> bNil" and dec: "UnmarshalCBOR L p0 data = (p, None)"
  shows "\<exists>v. cbor_Unmarshal_pointCBOR L data = Inr v \<and> MarshalCBOR L p = cbor_Marshal_pointCBOR L v"
proof -
  from ne dec obtain v where v: "cbor_Unmarshal_pointCBOR L data = Inr v"
    by (cases "cbor_Unmarshal_pointCBOR L data") (auto simp: UnmarshalCBOR_def)
  from ne dec v have "pointString p = pointCBOR_String v" "pointStruct p = pointCBOR_Struct v"
    "pointType p = PointTypeString \<or> pointType p = PointTypeStruct"
    by (auto simp: UnmarshalCBOR_def Let_def split: if_splits)
  then have "MarshalCBOR L p = cbor_Marshal_pointCBOR L v"
    by (auto simp: MarshalCBOR_def pointCBOR_eta)
  with v show ?thesis by blast
qed

lemma cbor_round_trip:
  "data \<noteq> [] \<Longrightarrow> data \<noteq> bNil \<Longrightarrow> UnmarshalCBOR L p0 data = (p, None) \<Longrightarrow>
   (\<forall>v. cbor_Unmarshal_pointCBOR L data = Inr v \<longrightarrow> cbor_Marshal_pointCBOR L v = Inr data) \<Longrightarrow>
   MarshalCBOR L p = Inr data"
  using cbor_reencode [of data L p0 p] by auto

lemma attribute_string_round_trip:
  "UnmarshalDynamoDBAttributeValue L p0 (Some (AttributeValue (Some s) None [])) = (p, None) \<Longrightarrow>
   MarshalDynamoDBAttributeValue L p (Some (AttributeValue None None [])) =
     Returns (Some (AttributeValue (Some s) None []), None)"
  by (auto simp: UnmarshalDynamoDBAttributeValue_def MarshalDynamoDBAttributeValue_def deref_def
        PointTypeString_def PointTypeStruct_def)

lemma attribute_map_round_trip:
  "m \<noteq> [] \<Longrightarrow>
   UnmarshalDynamoDBAttributeValue L p0 (Some (AttributeValue None None m)) = (p, None) \<Longrightarrow>
   (\<forall>ps. dynamodbattribute_UnmarshalMap L m = Inr ps \<longrightarrow>
      dynamodbattribute_MarshalMap L (Some ps) = Inr m) \<Longrightarrow>
   MarshalDynamoDBAttributeValue L p (Some (AttributeValue None None [])) =
     Returns (Some (AttributeValue None None m), None)"
  by (auto simp: UnmarshalDynamoDBAttributeValue_def MarshalDynamoDBAttributeValue_def deref_def
        PointTypeString_def PointTypeStruct_def split: sum.splits)

lemma empty_inputs_leave_point:
  "UnmarshalCBOR L p0 [] = (p0, None) \<and> UnmarshalCBOR L p0 bNil = (p0, None)
   \<and> UnmarshalDynamoDBAttributeValue L p0 None = (p0, None)
   \<and> UnmarshalDynamoDBAttributeValue L p0 (Some (AttributeValue None n [])) = (p0, None)"
  by (simp add: UnmarshalCBOR_def UnmarshalDynamoDBAttributeValue_def)

lemma no_representation_fails:
  "pointType p \<noteq> PointTypeString \<Longrightarrow> pointType p \<noteq> PointTypeStruct \<Longrightarrow>
   MarshalJSON L p = Inl unknown_type_error \<and> MarshalCBOR L p = Inl unknown_type_error
   \<and> MarshalDynamoDBAttributeValue L p item = Returns (item, Some unknown_type_error)"
  by (simp add: MarshalJSON_def MarshalCBOR_def MarshalDynamoDBAttributeValue_def)

lemma sample_UnmarshalJSON_origin:
  "UnmarshalJSON sample_library zero_Point json_origin = Returns (Origin, None)"
  by (simp add: UnmarshalJSON_def sample_library_def json_origin_def Origin_def)

lemma sample_UnmarshalCBOR_origin:
  "UnmarshalCBOR sample_library zero_Point cbor_origin = (Origin, None)"
  by (simp add: UnmarshalCBOR_def sample_library_def cbor_origin_def Origin_def bNil_def)

lemma sample_UnmarshalAttribute_origin:
  "UnmarshalDynamoDBAttributeValue sample_library zero_Point
     (Some (AttributeValue (Some ''origin'') None [])) = (Origin, None)"
  by (simp add: UnmarshalDynamoDBAttributeValue_def Origin_def)

lemma sample_UnmarshalAttribute_struct:
  "UnmarshalDynamoDBAttributeValue sample_library zero_Point
     (Some (AttributeValue None None sample_attribute_map)) =
   (\<lparr>pointType = PointTypeStruct, pointString = [], pointStruct = Some sample_point_struct\<rparr>,
    None)"
  by (simp add: UnmarshalDynamoDBAttributeValue_def sample_library_def sample_attribute_map_def)

subsection \<open>Claim about the Point codecs\<close>

text \<open>
  C7. Encoding what a successful decode produced is claimed to give back the original bytes
  in every encoding, also for the zero/empty Point, and encoding a Point with no
  representation set is claimed to fail. The two halves meet at the empty input:
  \<^verbatim>\<open>UnmarshalCBOR\<close> accepts empty bytes and leaves the Point untouched, and \<^verbatim>\<open>MarshalCBOR\<close> of
  that Point, which has no representation set, is an error instead of the empty bytes.
\<close>

theorem empty_point_does_not_round_trip:
  "UnmarshalCBOR sample_library zero_Point [] = (zero_Point, None)
   \<and> MarshalCBOR sample_library zero_Point = Inl unknown_type_error
   \<and> MarshalCBOR sample_library zero_Point \<noteq> Inr []"
  by (simp add: UnmarshalCBOR_def MarshalCBOR_def zero_Point_def PointTypeString_def
        PointTypeStruct_def)

text \<open>
  C7, amended. In every encoding, when an input decodes to a symbolic or structured Point
  and the underlying library re-encodes what it decoded from that input to the same bytes,
  encoding the decoded Point yields exactly the original input (for the attribute format:
  an attribute holding only a string, or only a non-empty map). The zero/empty Point does
  not round-trip: decoding empty CBOR bytes, the bytes "nil", a \<^verbatim>\<open>nil\<close> attribute or an
  attribute with neither string nor map succeeds and leaves the Point as it was. Encoding a
  Point with no representation set fails with an error in all three encodings.
\<close>

theorem point_codec_round_trip:
  "(UnmarshalJSON L p0 jdata = Returns (jp, None)
      \<and> (\<forall>s. json_Unmarshal_string L jdata = Inr s \<longrightarrow> json_Marshal_string L s = Inr jdata)
      \<and> (\<forall>ps. json_Unmarshal_PointStruct L jdata = Inr ps \<longrightarrow>
             json_Marshal_PointStruct L (Some ps) = Inr jdata)
    \<longrightarrow> MarshalJSON L jp = Inr jdata)
   \<and> (cdata \<noteq> [] \<and> cdata \<noteq> bNil \<and> UnmarshalCBOR L p0 cdata = (cp, None)
      \<and> (\<forall>v. cbor_Unmarshal_pointCBOR L cdata = Inr v \<longrightarrow>
             cbor_Marshal_pointCBOR L v = Inr cdata)
    \<longrightarrow> MarshalCBOR L cp = Inr cdata)
   \<and> (UnmarshalDynamoDBAttributeValue L p0 (Some (AttributeValue (Some str) None [])) = (sp, None)
    \<longrightarrow> MarshalDynamoDBAttributeValue L sp (Some (AttributeValue None None [])) =
          Returns (Some (AttributeValue (Some str) None []), None))
   \<and> (m \<noteq> []
      \<and> UnmarshalDynamoDBAttributeValue L p0 (Some (AttributeValue None None m)) = (mp, None)
      \<and> (\<forall>ps. dynamodbattribute_UnmarshalMap L m = Inr ps \<longrightarrow>
             dynamodbattribute_MarshalMap L (Some ps) = Inr m)
    \<longrightarrow> MarshalDynamoDBAttributeValue L mp (Some (AttributeValue None None [])) =
          Returns (Some (AttributeValue None None m), None))
   \<and> UnmarshalCBOR L p0 [] = (p0, None) \<and> UnmarshalCBOR L p0 bNil = (p0, None)
   \<and> UnmarshalDynamoDBAttributeValue L p0 None = (p0, None)
   \<and> UnmarshalDynamoDBAttributeValue L p0 (Some (AttributeValue None n [])) = (p0, None)
   \<and> (pointType zp \<noteq> PointTypeString \<and> pointType zp \<noteq> PointTypeStruct
    \<longrightarrow> MarshalJSON L zp = Inl unknown_type_error \<and> MarshalCBOR L zp = Inl unknown_type_error
        \<and> MarshalDynamoDBAttributeValue L zp item = Returns (item, Some unknown_type_error))"
  using json_round_trip [of L p0 jdata jp] cbor_round_trip [of cdata L p0 cp]
    attribute_string_round_trip [of L p0 str sp] attribute_map_round_trip [of m L p0 mp]
    empty_inputs_leave_point [of L p0 n] no_representation_fails [of zp L item]
  by simp

theorem point_codec_round_trip_witness:
  "UnmarshalJSON sample_library zero_Point json_origin = Returns (Origin, None)
   \<and> MarshalJSON sample_library Origin = Inr json_origin
   \<and> UnmarshalCBOR sample_library zero_Point cbor_origin = (Origin, None)
   \<and> MarshalCBOR sample_library Origin = Inr cbor_origin
   \<and> UnmarshalDynamoDBAttributeValue sample_library zero_Point
        (Some (AttributeValue (Some ''origin'') None [])) = (Origin, None)
   \<and> MarshalDynamoDBAttributeValue sample_library Origin (Some (AttributeValue None None [])) =
        Returns (Some (AttributeValue (Some ''origin'') None []), None)
   \<and> UnmarshalDynamoDBAttributeValue sample_library zero_Point
        (Some (AttributeValue None None sample_attribute_map)) =
      (\<lparr>pointType = PointTypeStruct, pointString = [], pointStruct = Some sample_point_struct\<rparr>,
       None)
   \<and> MarshalDynamoDBAttributeValue sample_library
        \<lparr>pointType = PointTypeStruct, pointString = [], pointStruct = Some sample_point_struct\<rparr>
        (Some (AttributeValue None None [])) =
      Returns (Some (AttributeValue None None sample_attribute_map), None)
   \<and> pointType zero_Point = 0
   \<and> MarshalJSON sample_library zero_Point = Inl unknown_type_error"
proof -
  note at_sample = point_codec_round_trip
    [where L = sample_library and ?p0.0 = zero_Point and jdata = json_origin and jp = Origin
       and cdata = cbor_origin and cp = Origin and str = "''origin''" and sp = Origin
       and m = sample_attribute_map
       and mp = "\<lparr>pointType = PointTypeStruct, pointString = [],
                  pointStruct = Some sample_point_struct\<rparr>"
       and zp = zero_Point]
  have json_lib:
    "\<forall>s. json_Unmarshal_string sample_library json_origin = Inr s \<longrightarrow>
         json_Marshal_string sample_library s = Inr json_origin"
    "\<forall>ps. json_Unmarshal_PointStruct sample_library json_origin = Inr ps \<longrightarrow>
         json_Marshal_PointStruct sample_library (Some ps) = Inr json_origin"
    by (auto simp: sample_library_def json_origin_def json_point_struct_def)
  have cbor_lib:
    "\<forall>v. cbor_Unmarshal_pointCBOR sample_library cbor_origin = Inr v \<longrightarrow>
         cbor_Marshal_pointCBOR sample_library v = Inr cbor_origin"
    by (auto simp: sample_library_def)
  have cbor_ne: "cbor_origin \<noteq> []" "cbor_origin \<noteq> bNil"
    by (simp_all add: cbor_origin_def bNil_def)
  have map_lib:
    "\<forall>ps. dynamodbattribute_UnmarshalMap sample_library sample_attribute_map = Inr ps \<longrightarrow>
         dynamodbattribute_MarshalMap sample_library (Some ps) = Inr sample_attribute_map"
    by (auto simp: sample_library_def)
  have map_ne: "sample_attribute_map \<noteq> []"
    by (simp add: sample_attribute_map_def)
  have zero: "pointType zero_Point \<noteq> PointTypeString" "pointType zero_Point \<noteq> PointTypeStruct"
    by (simp_all add: zero_Point_def PointTypeString_def PointTypeStruct_def)
  have json: "MarshalJSON sample_library Origin = Inr json_origin"
    using at_sample sample_UnmarshalJSON_origin json_lib by blast
  have cbor: "MarshalCBOR sample_library Origin = Inr cbor_origin"
    using at_sample sample_UnmarshalCBOR_origin cbor_lib cbor_ne by blast
  have attr_string:
    "MarshalDynamoDBAttributeValue sample_library Origin (Some (AttributeValue None None [])) =
       Returns (Some (AttributeValue (Some ''origin'') None []), None)"
    using at_sample sample_UnmarshalAttribute_origin by blast
  have attr_map:
    "MarshalDynamoDBAttributeValue sample_library
        \<lparr>pointType = PointTypeStruct, pointString = [], pointStruct = Some sample_point_struct\<rparr>
        (Some (AttributeValue None None [])) =
      Returns (Some (AttributeValue None None sample_attribute_map), None)"
    using at_sample sample_UnmarshalAttribute_struct map_lib map_ne by blast
  have unset: "MarshalJSON sample_library zero_Point = Inl unknown_type_error"
    using at_sample zero by blast
  show ?thesis
    using json cbor attr_string attr_map unset sample_UnmarshalJSON_origin
      sample_UnmarshalCBOR_origin sample_UnmarshalAttribute_origin
      sample_UnmarshalAttribute_struct
    by (simp add: zero_Point_def)
qed

section \<open>Proofs: the transport\<close>

lemma credits_inv_init: "credits_inv N (init N)"
  by (simp add: credits_inv_def init_def)

lemma credits_inv_step:
  assumes "credits_inv N s" and "step a s = Some s'"
  shows "credits_inv N s'"
proof (cases a)
  case Read
  with assms show ?thesis
    by (cases "reader s"; cases "inbound s") (auto simp: credits_inv_def)
next
  case Refill
  with assms show ?thesis
    by (cases "reader s") (auto simp: credits_inv_def offer_credit_def)
next
  case (WritePong ok)
  with assms show ?thesis
    by (cases "reader s") (auto simp: credits_inv_def split: if_splits)
next
  case Push
  with assms show ?thesis
    by (cases "reader s") (auto simp: credits_inv_def split: if_splits)
next
  case ReaderSeesDone
  with assms show ?thesis
    by (cases "reader s") (auto simp: credits_inv_def split: if_splits)
next
  case ReadNext
  with assms show ?thesis
    by (cases "blocks s") (auto simp: credits_inv_def split: if_splits)
qed (use assms in \<open>auto simp: credits_inv_def offer_credit_def split: if_splits\<close>)

lemma credits_inv_run: "credits_inv N s \<Longrightarrow> run acts s = Some s' \<Longrightarrow> credits_inv N s'"
  by (induction acts arbitrary: s) (auto split: option.splits dest: credits_inv_step)

lemma tip_step:
  assumes "step a s = Some s'" and "tip s = 0"
  shows "tip s' = 0 \<and> a \<noteq> TipReceive"
proof (cases a)
  case Read
  with assms show ?thesis
    by (cases "reader s"; cases "inbound s") auto
next
  case Refill
  with assms show ?thesis
    by (cases "reader s") (auto simp: offer_credit_def)
next
  case (WritePong ok)
  with assms show ?thesis
    by (cases "reader s") (auto split: if_splits)
next
  case Push
  with assms show ?thesis
    by (cases "reader s") (auto split: if_splits)
next
  case ReaderSeesDone
  with assms show ?thesis
    by (cases "reader s") (auto split: if_splits)
next
  case ReadNext
  with assms show ?thesis
    by (cases "blocks s") (auto split: if_splits)
qed (use assms in \<open>auto simp: offer_credit_def split: if_splits\<close>)

lemma tip_run: "run acts s = Some s' \<Longrightarrow> tip s = 0 \<Longrightarrow> tip s' = 0 \<and> TipReceive \<notin> set acts"
proof (induction acts arbitrary: s)
  case Nil
  then show ?case by simp
next
  case (Cons a acts)
  from Cons.prems obtain s1 where s1: "step a s = Some s1" and rest: "run acts s1 = Some s'"
    by (auto split: option.splits)
  from tip_step [OF s1 Cons.prems(2)] have "tip s1 = 0" "a \<noteq> TipReceive" by simp_all
  with Cons.IH [OF rest] show ?case by auto
qed

subsection \<open>Claims about the transport\<close>

text \<open>
  C2. With pipeline depth N the outstanding \<^verbatim>\<open>RequestNext\<close> requests are claimed never to
  exceed N, so never 8 with depth 8 and a server that answers each request once. The
  reader refills a credit for every message it reads, the answer to the initial
  \<^verbatim>\<open>FindIntersect\<close> included: after the writer has used the 8 pre-loaded credits, that answer
  lets it send a ninth \<^verbatim>\<open>RequestNext\<close> while none has been answered.
\<close>

theorem nine_outstanding_with_depth_eight:
  "map_option outstanding (run (eager_writer 8) (init 8)) = Some 9"
  by code_simp

text \<open>
  C2, amended. In every interleaving of a session opened with pipeline depth N, against a
  server that answers each request once and in order, the outstanding \<^verbatim>\<open>RequestNext\<close>
  requests (those written minus the answers to them that the reader has read) never exceed
  N + 1 (1 when N is negative): at most 9 with depth 8.
\<close>

theorem outstanding_at_most_depth_plus_one:
  "run acts (init N) = Some s \<Longrightarrow> outstanding s \<le> max N 0 + 1"
  using credits_inv_run [OF credits_inv_init, of acts N s]
  by (auto simp: credits_inv_def outstanding_def next_received_def
        split: if_splits reader_pc.splits)

theorem outstanding_at_most_depth_plus_one_witness:
  "run [WriteInit True, Preload, Preload, WriterTakesCredit, WriteNext True] (init 2) =
     Some \<lparr>ch = 1, blocks = [], tip = 0, cancelled = False, writer = WriterSelect,
           reader = ReaderRead, preload = 0, find_sent = True, next_sent = 1, pongs_sent = 0,
           inbound = [], answered = 0, received = 0\<rparr>
   \<and> outstanding
        \<lparr>ch = 1, blocks = [], tip = 0, cancelled = False, writer = WriterSelect,
         reader = ReaderRead, preload = 0, find_sent = True, next_sent = 1, pongs_sent = 0,
         inbound = [], answered = 0, received = 0\<rparr> \<le> max 2 0 + 1"
proof -
  have trace: "run [WriteInit True, Preload, Preload, WriterTakesCredit, WriteNext True] (init 2) =
     Some \<lparr>ch = 1, blocks = [], tip = 0, cancelled = False, writer = WriterSelect,
           reader = ReaderRead, preload = 0, find_sent = True, next_sent = 1, pongs_sent = 0,
           inbound = [], answered = 0, received = 0\<rparr>"
    by (simp add: init_def offer_credit_def ch_capacity_def)
  from outstanding_at_most_depth_plus_one [OF trace] trace show ?thesis
    by simp
qed

text \<open>
  C10. Nothing is ever sent on the tip-change channel of a session: in every interleaving
  the channel stays empty, and no receive on the channel that \<^verbatim>\<open>Tip()\<close> returns ever succeeds.
\<close>

theorem tip_channel_never_written:
  "run acts (init N) = Some s \<Longrightarrow> tip s = 0 \<and> TipReceive \<notin> set acts"
  using tip_run [of acts "init N" s] by (simp add: init_def)

theorem tip_channel_never_written_witness:
  "run [WriteInit True, Preload, Respond (TextMessage, ''{}''), Read, Refill, Push, ReadNext]
     (init 1) =
     Some \<lparr>ch = 2, blocks = [], tip = 0, cancelled = False, writer = WriterSelect,
           reader = ReaderRead, preload = 0, find_sent = True, next_sent = 0, pongs_sent = 0,
           inbound = [], answered = 1, received = 1\<rparr>
   \<and> TipReceive \<notin> set [WriteInit True, Preload, Respond (TextMessage, ''{}''), Read, Refill,
                          Push, ReadNext]"
proof -
  have trace:
    "run [WriteInit True, Preload, Respond (TextMessage, ''{}''), Read, Refill, Push, ReadNext]
       (init 1) =
     Some \<lparr>ch = 2, blocks = [], tip = 0, cancelled = False, writer = WriterSelect,
           reader = ReaderRead, preload = 0, find_sent = True, next_sent = 0, pongs_sent = 0,
           inbound = [], answered = 1, received = 1\<rparr>"
    by (simp add: init_def offer_credit_def ch_capacity_def requests_sent_def TextMessage_def
          PingMessage_def blocks_capacity_def)
  from tip_channel_never_written [OF trace] trace show ?thesis
    by simp
qed


end
